theory Spec2Isabelle
  imports Complex_Main "HOL-Library.AList"
begin

section \<open>Python values shared by both services\<close>

text \<open>
  The exceptions the modelled code can raise. \<open>AssertionError\<close> is what the Python
  wrapper of the similarity library raises when a shape check fails; \<open>IndexError\<close>,
  \<open>KeyError\<close> and \<open>AttributeError\<close> (a method called on \<open>None\<close>) are the
  interpreter's own; \<open>RuntimeError\<close> is the library refusing an untrained structure
  or an unreadable file, \<open>UnpicklingError\<close> a metadata artifact that cannot be read
  back.
\<close>

datatype py_error =
  AssertionError | IndexError | KeyError | AttributeError | RuntimeError | UnpicklingError

text \<open>
  A Python \<open>str\<close> is modelled as a \<open>string\<close>; one \<open>char\<close> stands for one code point, so the
  model covers texts over the code points below 256. \<open>len\<close> is \<open>length\<close>, as an \<open>int\<close>.
\<close>

definition py_len :: "'a list \<Rightarrow> int" where
  "py_len xs = int (length xs)"

text \<open>\<open>xs[i:j]\<close>: a negative bound counts from the end, and both bounds are clamped.\<close>

definition py_slice :: "'a list \<Rightarrow> int \<Rightarrow> int \<Rightarrow> 'a list" where
  "py_slice xs i j =
     (let n = py_len xs;
          lo = (if i < 0 then max (n + i) 0 else min i n);
          hi = (if j < 0 then max (n + j) 0 else min j n)
      in take (nat (hi - lo)) (drop (nat lo) xs))"

text \<open>\<open>xs[i]\<close>: a negative index counts from the end; out of range raises \<open>IndexError\<close>.\<close>

definition py_index :: "'a list \<Rightarrow> int \<Rightarrow> py_error + 'a" where
  "py_index xs i =
     (let n = py_len xs; j = (if i < 0 then n + i else i)
      in if 0 \<le> j \<and> j < n then Inr (xs ! nat j) else Inl IndexError)"

text \<open>
  \<open>str.isspace\<close> on one code point below 256, which is also what \<open>\s\<close> matches in a
  \<open>str\<close> pattern: TAB to CR, FS to US, SPACE, NEL and NBSP.
\<close>

definition is_space :: "char \<Rightarrow> bool" where
  "is_space c = (c \<in> set [CHR 0x09, CHR 0x0A, CHR 0x0B, CHR 0x0C, CHR 0x0D,
                           CHR 0x1C, CHR 0x1D, CHR 0x1E, CHR 0x1F, CHR 0x20,
                           CHR 0x85, CHR 0xA0])"

definition py_strip :: "string \<Rightarrow> string" where
  "py_strip s = rev (dropWhile is_space (rev (dropWhile is_space s)))"


section \<open>pdf\_processor.py: the chunker\<close>

record pdf_chunk =
  content :: string
  page_number :: int
  chunk_index :: int
  start_char :: int
  end_char :: int
  token_count :: int

text \<open>One entry of \<open>page_texts\<close>: the dictionary built by \<open>extract_text_from_pdf\<close>.\<close>

record page_text =
  pt_page_number :: int
  pt_text :: string
  pt_start_char :: int

text \<open>The three attributes set by \<open>PDFProcessor.__init__\<close>.\<close>

record pdf_processor =
  chunk_size :: int
  chunk_overlap :: int
  min_chunk_size :: int

subsection \<open>\_clean\_text\<close>

text \<open>
  \<open>re.sub(r'\s+', ' ', text)\<close>: every maximal run of whitespace becomes one space. The
  flag says whether the previous character belonged to a run already replaced.
\<close>

fun collapse_ws :: "bool \<Rightarrow> string \<Rightarrow> string" where
  "collapse_ws in_run [] = []"
| "collapse_ws in_run (c # cs) =
     (if is_space c
      then (if in_run then collapse_ws True cs else CHR '' '' # collapse_ws True cs)
      else c # collapse_ws False cs)"

text \<open>
  \<open>unicodedata.normalize('NFKC', _)\<close> belongs to the interpreter's library; it is the
  parameter \<open>nfkc\<close>.
\<close>

definition clean_text :: "(string \<Rightarrow> string) \<Rightarrow> string \<Rightarrow> string" where
  "clean_text nfkc txt =
     py_strip (nfkc (filter (\<lambda>c. c \<noteq> CHR 0x00) (collapse_ws False txt)))"

subsection \<open>\_find\_break\_point\<close>

text \<open>\<open>range(search_range)\<close> with \<open>search_range = min(200, len(text) - position)\<close>.\<close>

definition search_offsets :: "string \<Rightarrow> int \<Rightarrow> int list" where
  "search_offsets txt position = map int [0..<nat (min 200 (py_len txt - position))]"

text \<open>First loop: a paragraph break. A slice never raises.\<close>

definition paragraph_break :: "string \<Rightarrow> int \<Rightarrow> int option" where
  "paragraph_break txt position =
     (case find (\<lambda>i. position + i < py_len txt \<and>
                       py_slice txt (position + i) (position + i + 2) = [CHR 0x0A, CHR 0x0A])
                (search_offsets txt position) of
        None \<Rightarrow> None
      | Some i \<Rightarrow> Some (position + i + 2))"

text \<open>Second loop: a sentence end. \<open>text[position + i]\<close> can raise.\<close>

fun sentence_break :: "string \<Rightarrow> int \<Rightarrow> int list \<Rightarrow> py_error + int option" where
  "sentence_break txt position [] = Inr None"
| "sentence_break txt position (i # rest) =
     (if position + i < py_len txt then
        (case py_index txt (position + i) of
           Inl e \<Rightarrow> Inl e
         | Inr c \<Rightarrow>
             (if c \<in> set ''.!?'' then
                (if position + i + 1 \<ge> py_len txt then Inr (Some (position + i + 1))
                 else (case py_index txt (position + i + 1) of
                         Inl e \<Rightarrow> Inl e
                       | Inr c' \<Rightarrow> (if c' = CHR '' '' then Inr (Some (position + i + 1))
                                   else sentence_break txt position rest)))
              else sentence_break txt position rest))
      else sentence_break txt position rest)"

text \<open>Third loop: a word break.\<close>

fun word_break :: "string \<Rightarrow> int \<Rightarrow> int list \<Rightarrow> py_error + int option" where
  "word_break txt position [] = Inr None"
| "word_break txt position (i # rest) =
     (if position + i < py_len txt then
        (case py_index txt (position + i) of
           Inl e \<Rightarrow> Inl e
         | Inr c \<Rightarrow> (if c = CHR '' '' then Inr (Some (position + i + 1))
                     else word_break txt position rest))
      else word_break txt position rest)"

definition find_break_point :: "string \<Rightarrow> int \<Rightarrow> py_error + int" where
  "find_break_point txt position =
     (case paragraph_break txt position of
        Some r \<Rightarrow> Inr r
      | None \<Rightarrow>
          (case sentence_break txt position (search_offsets txt position) of
             Inl e \<Rightarrow> Inl e
           | Inr (Some r) \<Rightarrow> Inr r
           | Inr None \<Rightarrow>
               (case word_break txt position (search_offsets txt position) of
                  Inl e \<Rightarrow> Inl e
                | Inr (Some r) \<Rightarrow> Inr r
                | Inr None \<Rightarrow> Inr position)))"

subsection \<open>\_get\_page\_for\_position and \_estimate\_tokens\<close>

fun get_page_for_position :: "int \<Rightarrow> page_text list \<Rightarrow> int" where
  "get_page_for_position char_position [] = 1"
| "get_page_for_position char_position [page] = pt_page_number page"
| "get_page_for_position char_position (page # nxt # rest) =
     (if pt_start_char nxt > char_position then pt_page_number page
      else get_page_for_position char_position (nxt # rest))"

definition estimate_tokens :: "string \<Rightarrow> int" where
  "estimate_tokens txt = py_len txt div 4"

subsection \<open>chunk\_text\<close>

text \<open>The variables of the window loop: \<open>start\<close>, \<open>chunk_index\<close> and \<open>chunks\<close>.\<close>

record window =
  w_start :: int
  w_chunk_index :: int
  w_chunks :: "pdf_chunk list"

text \<open>
  The window end of one iteration: \<open>start + chunk_size\<close>, moved to the break point when
  that lies behind \<open>start\<close>, or the end of the text.
\<close>

definition window_end :: "pdf_processor \<Rightarrow> string \<Rightarrow> int \<Rightarrow> py_error + int" where
  "window_end p txt start =
     (let e = start + chunk_size p
      in if e < py_len txt then
           (case find_break_point txt e of
              Inl err \<Rightarrow> Inl err
            | Inr break_point \<Rightarrow> Inr (if break_point > start then break_point else e))
         else Inr (py_len txt))"

text \<open>
  One pass through the body of \<open>while start < len(text)\<close>. The last statement of the body
  is \<open>if start <= chunks[-1].start_char if chunks else 0: start = end\<close>; Python reads its
  condition as \<open>(start <= chunks[-1].start_char) if chunks else 0\<close>, which is false when
  no chunk has been produced yet.
\<close>

definition chunk_step ::
  "pdf_processor \<Rightarrow> string \<Rightarrow> page_text list \<Rightarrow> window \<Rightarrow> py_error + window" where
  "chunk_step p txt page_texts w =
     (case window_end p txt (w_start w) of
        Inl err \<Rightarrow> Inl err
      | Inr e \<Rightarrow>
          (let piece = py_strip (py_slice txt (w_start w) e);
               keep = (py_len piece \<ge> min_chunk_size p);
               chunks' = (if keep
                          then w_chunks w @
                               [\<lparr>content = piece,
                                 page_number = get_page_for_position (w_start w) page_texts,
                                 chunk_index = w_chunk_index w,
                                 start_char = w_start w,
                                 end_char = e,
                                 token_count = estimate_tokens piece\<rparr>]
                          else w_chunks w);
               index' = (if keep then w_chunk_index w + 1 else w_chunk_index w);
               start' = e - chunk_overlap p;
               back = (if chunks' \<noteq> [] then start' \<le> start_char (last chunks') else False)
           in Inr \<lparr>w_start = (if back then e else start'),
                   w_chunk_index = index',
                   w_chunks = chunks'\<rparr>))"

text \<open>
  The loop itself, with a bound on the number of iterations: \<open>None\<close> means that the
  bound was reached before the loop condition became false.
\<close>

fun chunk_loop ::
  "nat \<Rightarrow> pdf_processor \<Rightarrow> string \<Rightarrow> page_text list \<Rightarrow> window
     \<Rightarrow> (py_error + pdf_chunk list) option" where
  "chunk_loop 0 p txt page_texts w = None"
| "chunk_loop (Suc fuel) p txt page_texts w =
     (if w_start w < py_len txt then
        (case chunk_step p txt page_texts w of
           Inl err \<Rightarrow> Some (Inl err)
         | Inr w' \<Rightarrow> chunk_loop fuel p txt page_texts w')
      else Some (Inr (w_chunks w)))"

definition chunk_text ::
  "nat \<Rightarrow> pdf_processor \<Rightarrow> (string \<Rightarrow> string) \<Rightarrow> string \<Rightarrow> page_text list
     \<Rightarrow> (py_error + pdf_chunk list) option" where
  "chunk_text fuel p nfkc raw page_texts =
     (let txt = clean_text nfkc raw
      in if py_len txt < min_chunk_size p then
           Some (Inr [\<lparr>content = txt, page_number = 1, chunk_index = 0, start_char = 0,
                       end_char = py_len txt, token_count = estimate_tokens txt\<rparr>])
         else chunk_loop fuel p txt page_texts
                \<lparr>w_start = 0, w_chunk_index = 0, w_chunks = []\<rparr>)"


section \<open>embedding\_service.py: vectors, dictionaries, log records\<close>

text \<open>
  A \<open>float32\<close> vector is modelled as a list of reals and a two-dimensional array as the
  list of its rows; a similarity score is a real. Rounding is outside the model.
\<close>

type_synonym vec = "real list"

text \<open>The values found in a metadata dictionary, and the dictionary itself: an
  association list in insertion order, as a Python \<open>dict\<close> keeps it.\<close>

datatype py_value = Py_str string | Py_int int

type_synonym py_dict = "(string \<times> py_value) list"

definition dict_get :: "py_dict \<Rightarrow> string \<Rightarrow> py_value \<Rightarrow> py_value" where
  "dict_get d k dflt = (case map_of d k of None \<Rightarrow> dflt | Some v \<Rightarrow> v)"

text \<open>The ordinal table of one index: \<open>Dict[int, Dict]\<close>.\<close>

type_synonym meta_table = "(int \<times> py_dict) list"

text \<open>What the module's \<open>logger\<close> is asked to write.\<close>

datatype log_level = INFO | WARNING

datatype log_message =
    Created_index string
  | Added_embeddings int string
  | No_index_found string
  | Saved_index string
  | Loaded_index string
  | Deleted_index string
  | Global_index_trained
  | Global_index_not_trained

type_synonym log_record = "log_level \<times> log_message"

record search_result =
  sr_chunk_id :: py_value
  sr_content :: py_value
  sr_score :: real
  sr_page_number :: py_value
  sr_document_id :: py_value

text \<open>
  \<open>EmbeddingService\<close> with its model loaded: the model is a collaborator, so the service
  is the pair of the model's dimension and its encoding function.
\<close>

record embedding_service =
  es_dimension :: nat
  es_encode :: "string \<Rightarrow> vec"

definition get_dimension :: "embedding_service \<Rightarrow> nat" where
  "get_dimension es = es_dimension es"

definition generate_embedding :: "embedding_service \<Rightarrow> string \<Rightarrow> vec" where
  "generate_embedding es txt = es_encode es txt"


section \<open>The similarity library\<close>

text \<open>
  Modelled from the spec: the similarity structure behind a per-document index. The code
  builds it with \<open>faiss.IndexIDMap(faiss.IndexFlatIP(dimension))\<close>; the class belongs to
  the FAISS library, which is not in the repository. From the spec: every stored vector
  has the dimension \<open>D\<close> of the index; an addition appends the vectors with their
  ordinals; the metric is the inner product; a search returns up to \<open>k\<close> hits ordered by
  score descending, ties broken by ascending ordinal. From the library's Python wrapper:
  \<open>add_with_ids\<close> asserts that the array has \<open>D\<close> columns and as many rows as there are
  ids, \<open>search\<close> asserts that the query has \<open>D\<close> columns and that \<open>k > 0\<close>, and the
  answer always has \<open>k\<close> slots, the unused ones holding the label \<open>-1\<close>.
\<close>

record flat_index =
  fi_d :: nat
  fi_entries :: "(int \<times> vec) list"

definition new_flat_index :: "nat \<Rightarrow> flat_index" where
  "new_flat_index d = \<lparr>fi_d = d, fi_entries = []\<rparr>"

definition ntotal :: "flat_index \<Rightarrow> int" where
  "ntotal idx = py_len (fi_entries idx)"

definition has_dimension :: "nat \<Rightarrow> vec list \<Rightarrow> bool" where
  "has_dimension d x = list_all (\<lambda>v. length v = d) x"

definition add_with_ids :: "flat_index \<Rightarrow> vec list \<Rightarrow> int list \<Rightarrow> py_error + flat_index" where
  "add_with_ids idx x ids =
     (if \<not> has_dimension (fi_d idx) x then Inl AssertionError
      else if length ids \<noteq> length x then Inl AssertionError
      else Inr (idx\<lparr>fi_entries := fi_entries idx @ zip ids x\<rparr>))"

definition inner_product :: "vec \<Rightarrow> vec \<Rightarrow> real" where
  "inner_product x y = sum_list (map2 (*) x y)"

text \<open>A hit is a score with an ordinal. \<open>hit_before a b\<close>: \<open>a\<close> may stand before \<open>b\<close>.\<close>

type_synonym hit = "real \<times> int"

definition hit_before :: "hit \<Rightarrow> hit \<Rightarrow> bool" where
  "hit_before a b = (fst a > fst b \<or> (fst a = fst b \<and> snd a \<le> snd b))"

fun insert_hit :: "hit \<Rightarrow> hit list \<Rightarrow> hit list" where
  "insert_hit h [] = [h]"
| "insert_hit h (x # xs) = (if hit_before h x then h # x # xs else x # insert_hit h xs)"

definition sort_hits :: "hit list \<Rightarrow> hit list" where
  "sort_hits hs = foldr insert_hit hs []"

text \<open>The score the library leaves in an unused slot: the lowest \<open>float32\<close>.\<close>

definition pad_score :: real where
  "pad_score = - 340282346638528859811704183484516925440"

definition top_k :: "(int \<times> vec) list \<Rightarrow> vec \<Rightarrow> int \<Rightarrow> hit list" where
  "top_k entries q k =
     (let best = take (nat k) (sort_hits (map (\<lambda>(i, v). (inner_product q v, i)) entries))
      in best @ replicate (nat k - length best) (pad_score, - 1))"

definition flat_search :: "flat_index \<Rightarrow> vec \<Rightarrow> int \<Rightarrow> py_error + hit list" where
  "flat_search idx q k =
     (if length q \<noteq> fi_d idx then Inl AssertionError
      else if \<not> k > 0 then Inl AssertionError
      else Inr (top_k (fi_entries idx) q k))"

text \<open>
  Modelled from the spec: the structure behind the global index, built with
  \<open>faiss.IndexIVFFlat\<close> over \<open>nlist\<close> partitions; the class is not in the repository
  either. From the spec: the structure is created untrained, training makes it trained,
  and only a trained structure accepts additions and searches. Training computes the
  partitions from the training vectors; here it records them and sets the flag. Which
  stored vectors a search visits depends on the partitions and on \<open>nprobe\<close>: that
  choice is the parameter \<open>probe\<close> of \<open>ivf_search\<close>.
\<close>

record ivf_index =
  ivf_d :: nat
  ivf_nlist :: int
  ivf_is_trained :: bool
  ivf_training :: "vec list"
  ivf_nprobe :: int
  ivf_entries :: "(int \<times> vec) list"

definition new_ivf_index :: "nat \<Rightarrow> int \<Rightarrow> ivf_index" where
  "new_ivf_index d n =
     \<lparr>ivf_d = d, ivf_nlist = n, ivf_is_trained = False, ivf_training = [],
      ivf_nprobe = 1, ivf_entries = []\<rparr>"

definition ivf_train :: "ivf_index \<Rightarrow> vec list \<Rightarrow> py_error + ivf_index" where
  "ivf_train idx x =
     (if \<not> has_dimension (ivf_d idx) x then Inl AssertionError
      else Inr (idx\<lparr>ivf_is_trained := True, ivf_training := x\<rparr>))"

definition ivf_add_with_ids :: "ivf_index \<Rightarrow> vec list \<Rightarrow> int list \<Rightarrow> py_error + ivf_index" where
  "ivf_add_with_ids idx x ids =
     (if \<not> has_dimension (ivf_d idx) x then Inl AssertionError
      else if length ids \<noteq> length x then Inl AssertionError
      else if \<not> ivf_is_trained idx then Inl RuntimeError
      else Inr (idx\<lparr>ivf_entries := ivf_entries idx @ zip ids x\<rparr>))"

definition ivf_search ::
  "(ivf_index \<Rightarrow> vec \<Rightarrow> (int \<times> vec) list) \<Rightarrow> ivf_index \<Rightarrow> vec \<Rightarrow> int
     \<Rightarrow> py_error + hit list" where
  "ivf_search probe idx q k =
     (if length q \<noteq> ivf_d idx then Inl AssertionError
      else if \<not> k > 0 then Inl AssertionError
      else if \<not> ivf_is_trained idx then Inl RuntimeError
      else Inr (top_k (probe idx q) q k))"


section \<open>embedding\_service.py: FAISSIndexManager\<close>

text \<open>
  The attributes of a manager, and \<open>logged\<close>: the records it has sent to the logger.
  \<open>indices\<close> and \<open>metadata\<close> are the two dictionaries keyed by document id.
\<close>

record index_manager =
  index_path :: string
  embedding_service :: embedding_service
  indices :: "string \<rightharpoonup> flat_index"
  metadata :: "string \<rightharpoonup> meta_table"
  logged :: "log_record list"

text \<open>\<open>FAISSIndexManager(index_path)\<close>; the embedding service is a singleton.\<close>

definition new_index_manager :: "string \<Rightarrow> embedding_service \<Rightarrow> index_manager" where
  "new_index_manager path es =
     \<lparr>index_path = path, embedding_service = es, indices = Map.empty,
      metadata = Map.empty, logged = []\<rparr>"

definition log_to ::
  "log_level \<Rightarrow> log_message \<Rightarrow> 'a index_manager_scheme \<Rightarrow> 'a index_manager_scheme" where
  "log_to lvl msg m = m\<lparr>logged := logged m @ [(lvl, msg)]\<rparr>"

subsection \<open>create\_index\<close>

definition create_index :: "'a index_manager_scheme \<Rightarrow> string \<Rightarrow> 'a index_manager_scheme" where
  "create_index m document_id =
     log_to INFO (Created_index document_id)
       (m\<lparr>indices := (indices m)(document_id \<mapsto>
                        new_flat_index (get_dimension (embedding_service m))),
          metadata := (metadata m)(document_id \<mapsto> [])\<rparr>)"

subsection \<open>add\_embeddings\<close>

text \<open>\<open>np.array(range(start_id, start_id + len(chunk_ids)))\<close>.\<close>

definition numeric_ids :: "int \<Rightarrow> 'a list \<Rightarrow> int list" where
  "numeric_ids start_id chunk_ids = map (\<lambda>i. start_id + int i) [0..<length chunk_ids]"

text \<open>\<open>{'chunk_id': chunk_id, **meta}\<close>: a key of \<open>meta\<close> replaces an earlier one.\<close>

definition meta_entry :: "string \<Rightarrow> py_dict \<Rightarrow> py_dict" where
  "meta_entry chunk_id meta =
     fold (\<lambda>(k, v) d. AList.update k v d) meta [(''chunk_id'', Py_str chunk_id)]"

text \<open>
  The loop \<open>for i, (chunk_id, meta) in enumerate(zip(chunk_ids, chunk_metadata))\<close>, which
  assigns \<open>table[start_id + i]\<close>; \<open>zip\<close> stops at the shorter sequence.
\<close>

fun store_metadata :: "meta_table \<Rightarrow> int \<Rightarrow> (string \<times> py_dict) list \<Rightarrow> meta_table" where
  "store_metadata table ordinal [] = table"
| "store_metadata table ordinal ((chunk_id, meta) # rest) =
     store_metadata (AList.update ordinal (meta_entry chunk_id meta) table) (ordinal + 1) rest"

text \<open>\<open>len(self.metadata.get(document_id, {}))\<close>.\<close>

definition metadata_count :: "'a index_manager_scheme \<Rightarrow> string \<Rightarrow> int" where
  "metadata_count m document_id =
     (case metadata m document_id of None \<Rightarrow> 0 | Some table \<Rightarrow> py_len table)"

text \<open>
  The result is the exception, if one is raised, together with the manager as the call
  leaves it. \<open>self.metadata[document_id]\<close> raises \<open>KeyError\<close> when the table is missing,
  at the first pass through the loop.
\<close>

definition add_embeddings ::
  "'a index_manager_scheme \<Rightarrow> string \<Rightarrow> string list \<Rightarrow> vec list \<Rightarrow> py_dict list
     \<Rightarrow> (py_error + unit) \<times> 'a index_manager_scheme" where
  "add_embeddings m document_id chunk_ids embeddings chunk_metadata =
     (let m1 = (if indices m document_id = None then create_index m document_id else m)
      in case indices m1 document_id of
           None \<Rightarrow> (Inl KeyError, m1)
         | Some index \<Rightarrow>
             (let start_id = metadata_count m1 document_id
              in case add_with_ids index embeddings (numeric_ids start_id chunk_ids) of
                   Inl err \<Rightarrow> (Inl err, m1)
                 | Inr index' \<Rightarrow>
                     (let m2 = m1\<lparr>indices := (indices m1)(document_id \<mapsto> index')\<rparr>;
                          pairs = zip chunk_ids chunk_metadata
                      in if pairs = [] then
                           (Inr (), log_to INFO
                                      (Added_embeddings (py_len chunk_ids) document_id) m2)
                         else
                           (case metadata m2 document_id of
                              None \<Rightarrow> (Inl KeyError, m2)
                            | Some table \<Rightarrow>
                                (Inr (),
                                 log_to INFO (Added_embeddings (py_len chunk_ids) document_id)
                                   (m2\<lparr>metadata := (metadata m2)(document_id \<mapsto>
                                          store_metadata table start_id pairs)\<rparr>))))))"

subsection \<open>search\<close>

definition result_of :: "py_dict \<Rightarrow> real \<Rightarrow> py_value \<Rightarrow> search_result" where
  "result_of meta score document =
     \<lparr>sr_chunk_id = dict_get meta ''chunk_id'' (Py_str []),
      sr_content = dict_get meta ''content'' (Py_str []),
      sr_score = score,
      sr_page_number = dict_get meta ''page_number'' (Py_int 0),
      sr_document_id = document\<rparr>"

text \<open>\<open>doc_metadata.get(int(idx), {})\<close>.\<close>

definition meta_of :: "meta_table \<Rightarrow> int \<Rightarrow> py_dict" where
  "meta_of table idx = (case map_of table idx of None \<Rightarrow> [] | Some meta \<Rightarrow> meta)"

text \<open>The loop \<open>for score, idx in zip(scores[0], indices[0])\<close> of \<open>search\<close>.\<close>

fun build_results :: "meta_table \<Rightarrow> string \<Rightarrow> hit list \<Rightarrow> search_result list" where
  "build_results table document_id [] = []"
| "build_results table document_id ((score, idx) # rest) =
     (if idx = - 1 then build_results table document_id rest
      else (let meta = meta_of table idx
            in if meta \<noteq> []
               then result_of meta score (Py_str document_id) # build_results table document_id rest
               else build_results table document_id rest))"

text \<open>\<open>self.metadata.get(document_id, {})\<close>.\<close>

definition metadata_table :: "'a index_manager_scheme \<Rightarrow> string \<Rightarrow> meta_table" where
  "metadata_table m document_id =
     (case metadata m document_id of None \<Rightarrow> [] | Some table \<Rightarrow> table)"

definition search ::
  "'a index_manager_scheme \<Rightarrow> string \<Rightarrow> string \<Rightarrow> int
     \<Rightarrow> (py_error + search_result list) \<times> 'a index_manager_scheme" where
  "search m document_id query k =
     (case indices m document_id of
        None \<Rightarrow> (Inr [], log_to WARNING (No_index_found document_id) m)
      | Some index \<Rightarrow>
          (let query_embedding = generate_embedding (embedding_service m) query
           in case flat_search index query_embedding k of
                Inl err \<Rightarrow> (Inl err, m)
              | Inr hits \<Rightarrow>
                  (Inr (build_results (metadata_table m document_id) document_id hits), m)))"

subsection \<open>save\_index, load\_index, get\_index\_stats\<close>

text \<open>
  The disk: a map from paths to artifacts. An artifact is what \<open>faiss.write_index\<close> or
  \<open>pickle.dump\<close> wrote; reading one back gives the value written, and reading an
  artifact of the other kind fails. Failing devices are outside the model.
\<close>

datatype artifact = Index_file flat_index | Meta_file meta_table

type_synonym disk = "string \<rightharpoonup> artifact"

text \<open>\<open>os.path.join(a, b)\<close> with two arguments.\<close>

definition path_join :: "string \<Rightarrow> string \<Rightarrow> string" where
  "path_join a b =
     (if b \<noteq> [] \<and> hd b = CHR ''/'' then b
      else if a = [] \<or> last a = CHR ''/'' then a @ b
      else a @ ''/'' @ b)"

definition index_file :: "'a index_manager_scheme \<Rightarrow> string \<Rightarrow> string" where
  "index_file m document_id = path_join (index_path m) (document_id @ ''.index'')"

definition meta_file :: "'a index_manager_scheme \<Rightarrow> string \<Rightarrow> string" where
  "meta_file m document_id = path_join (index_path m) (document_id @ ''.meta'')"

definition save_index ::
  "'a index_manager_scheme \<Rightarrow> string \<Rightarrow> disk \<Rightarrow> 'a index_manager_scheme \<times> disk" where
  "save_index m document_id fs =
     (case indices m document_id of
        None \<Rightarrow> (m, fs)
      | Some index \<Rightarrow>
          (log_to INFO (Saved_index document_id) m,
           (fs(index_file m document_id \<mapsto> Index_file index))
             (meta_file m document_id \<mapsto> Meta_file (metadata_table m document_id))))"

definition load_index ::
  "'a index_manager_scheme \<Rightarrow> string \<Rightarrow> disk
     \<Rightarrow> (py_error + bool) \<times> 'a index_manager_scheme" where
  "load_index m document_id fs =
     (if fs (index_file m document_id) = None \<or> fs (meta_file m document_id) = None
      then (Inr False, m)
      else (case fs (index_file m document_id) of
              Some (Index_file index) \<Rightarrow>
                (let m1 = m\<lparr>indices := (indices m)(document_id \<mapsto> index)\<rparr>
                 in case fs (meta_file m document_id) of
                      Some (Meta_file table) \<Rightarrow>
                        (Inr True,
                         log_to INFO (Loaded_index document_id)
                           (m1\<lparr>metadata := (metadata m1)(document_id \<mapsto> table)\<rparr>))
                    | _ \<Rightarrow> (Inl UnpicklingError, m1))
            | _ \<Rightarrow> (Inl RuntimeError, m)))"

record index_stats =
  total_vectors :: int
  dimension :: int
  metadata_entries :: int

text \<open>\<open>None\<close> stands for the empty dictionary returned when there is no index.\<close>

definition get_index_stats :: "'a index_manager_scheme \<Rightarrow> string \<Rightarrow> index_stats option" where
  "get_index_stats m document_id =
     (case indices m document_id of
        None \<Rightarrow> None
      | Some index \<Rightarrow>
          Some \<lparr>total_vectors = ntotal index,
                dimension = int (get_dimension (embedding_service m)),
                metadata_entries = metadata_count m document_id\<rparr>)"


section \<open>embedding\_service.py: GlobalIndexManager\<close>

record global_index_manager = index_manager +
  nlist :: int
  global_index :: "ivf_index option"
  global_metadata :: meta_table
  is_trained :: bool

definition new_global_index_manager ::
  "string \<Rightarrow> embedding_service \<Rightarrow> int \<Rightarrow> global_index_manager" where
  "new_global_index_manager path es n =
     \<lparr>index_path = path, embedding_service = es, indices = Map.empty,
      metadata = Map.empty, logged = [],
      nlist = n, global_index = None, global_metadata = [], is_trained = False\<rparr>"

subsection \<open>create\_global\_index\<close>

definition create_global_index ::
  "global_index_manager \<Rightarrow> vec list option
     \<Rightarrow> (py_error + unit) \<times> global_index_manager" where
  "create_global_index g training_vectors =
     (let fresh = new_ivf_index (get_dimension (embedding_service g)) (nlist g);
          g1 = g\<lparr>global_index := Some fresh\<rparr>
      in case training_vectors of
           None \<Rightarrow> (Inr (), g1)
         | Some x \<Rightarrow>
             (if py_len x \<ge> nlist g then
                (case ivf_train fresh x of
                   Inl err \<Rightarrow> (Inl err, g1)
                 | Inr trained \<Rightarrow>
                     (Inr (), log_to INFO Global_index_trained
                                (g1\<lparr>global_index := Some trained, is_trained := True\<rparr>)))
              else (Inr (), g1)))"

subsection \<open>add\_to\_global\_index\<close>

text \<open>\<open>{'chunk_id': chunk_id, 'document_id': document_id, **meta}\<close>.\<close>

definition global_meta_entry :: "string \<Rightarrow> string \<Rightarrow> py_dict \<Rightarrow> py_dict" where
  "global_meta_entry chunk_id document_id meta =
     fold (\<lambda>(k, v) d. AList.update k v d) meta
       [(''chunk_id'', Py_str chunk_id), (''document_id'', Py_str document_id)]"

fun store_global_metadata ::
  "meta_table \<Rightarrow> string \<Rightarrow> int \<Rightarrow> (string \<times> py_dict) list \<Rightarrow> meta_table" where
  "store_global_metadata table document_id ordinal [] = table"
| "store_global_metadata table document_id ordinal ((chunk_id, meta) # rest) =
     store_global_metadata
       (AList.update ordinal (global_meta_entry chunk_id document_id meta) table)
       document_id (ordinal + 1) rest"

text \<open>The second statement: train on this batch when it is large enough.\<close>

definition train_on_batch ::
  "global_index_manager \<Rightarrow> vec list \<Rightarrow> (py_error + unit) \<times> global_index_manager" where
  "train_on_batch g embeddings =
     (if \<not> is_trained g \<and> py_len embeddings \<ge> nlist g then
        (case global_index g of
           None \<Rightarrow> (Inl AttributeError, g)
         | Some index \<Rightarrow>
             (case ivf_train index embeddings of
                Inl err \<Rightarrow> (Inl err, g)
              | Inr trained \<Rightarrow> (Inr (), g\<lparr>global_index := Some trained, is_trained := True\<rparr>)))
      else (Inr (), g))"

text \<open>The rest of the body, from \<open>if not self.is_trained\<close> on.\<close>

definition add_trained ::
  "global_index_manager \<Rightarrow> string \<Rightarrow> string list \<Rightarrow> vec list \<Rightarrow> py_dict list
     \<Rightarrow> (py_error + unit) \<times> global_index_manager" where
  "add_trained g document_id chunk_ids embeddings chunk_metadata =
     (if \<not> is_trained g then (Inr (), log_to WARNING Global_index_not_trained g)
      else (case global_index g of
              None \<Rightarrow> (Inl AttributeError, g)
            | Some index \<Rightarrow>
                (let start_id = py_len (global_metadata g)
                 in case ivf_add_with_ids index embeddings (numeric_ids start_id chunk_ids) of
                      Inl err \<Rightarrow> (Inl err, g)
                    | Inr index' \<Rightarrow>
                        (Inr (),
                         g\<lparr>global_index := Some index',
                           global_metadata :=
                             store_global_metadata (global_metadata g) document_id start_id
                               (zip chunk_ids chunk_metadata)\<rparr>))))"

definition add_to_global_index ::
  "global_index_manager \<Rightarrow> string \<Rightarrow> string list \<Rightarrow> vec list \<Rightarrow> py_dict list
     \<Rightarrow> (py_error + unit) \<times> global_index_manager" where
  "add_to_global_index g document_id chunk_ids embeddings chunk_metadata =
     (case (if global_index g = None then create_global_index g (Some embeddings)
            else (Inr (), g)) of
        (Inl err, g1) \<Rightarrow> (Inl err, g1)
      | (Inr _, g1) \<Rightarrow>
          (case train_on_batch g1 embeddings of
             (Inl err, g2) \<Rightarrow> (Inl err, g2)
           | (Inr _, g2) \<Rightarrow> add_trained g2 document_id chunk_ids embeddings chunk_metadata))"

subsection \<open>global\_search\<close>

text \<open>The loop of \<open>global_search\<close>: the document id comes from the metadata.\<close>

fun build_global_results :: "meta_table \<Rightarrow> hit list \<Rightarrow> search_result list" where
  "build_global_results table [] = []"
| "build_global_results table ((score, idx) # rest) =
     (if idx = - 1 then build_global_results table rest
      else (let meta = meta_of table idx
            in if meta \<noteq> []
               then result_of meta score (dict_get meta ''document_id'' (Py_str []))
                      # build_global_results table rest
               else build_global_results table rest))"

definition global_search ::
  "(ivf_index \<Rightarrow> vec \<Rightarrow> (int \<times> vec) list) \<Rightarrow> global_index_manager \<Rightarrow> string \<Rightarrow> int
     \<Rightarrow> (py_error + search_result list) \<times> global_index_manager" where
  "global_search probe g query k =
     (case global_index g of
        None \<Rightarrow> (Inr [], g)
      | Some index \<Rightarrow>
          (if \<not> is_trained g then (Inr [], g)
           else (let query_embedding = generate_embedding (embedding_service g) query;
                     index' = index\<lparr>ivf_nprobe := min 10 (nlist g)\<rparr>;
                     g1 = g\<lparr>global_index := Some index'\<rparr>
                 in case ivf_search probe index' query_embedding k of
                      Inl err \<Rightarrow> (Inl err, g1)
                    | Inr hits \<Rightarrow> (Inr (build_global_results (global_metadata g) hits), g1))))"


section \<open>Notions used in the statements\<close>

text \<open>
  The hits that the result loops keep: those with a label other than \<open>-1\<close> whose
  ordinal has a non-empty entry in the table.
\<close>

definition kept_hits :: "meta_table \<Rightarrow> hit list \<Rightarrow> hit list" where
  "kept_hits table hits = filter (\<lambda>(score, idx). idx \<noteq> - 1 \<and> meta_of table idx \<noteq> []) hits"

text \<open>The hits, with their ordinals, behind the results of \<open>search\<close>.\<close>

definition search_hits :: "'a index_manager_scheme \<Rightarrow> string \<Rightarrow> string \<Rightarrow> int \<Rightarrow> hit list" where
  "search_hits m document_id query k =
     (case indices m document_id of
        None \<Rightarrow> []
      | Some index \<Rightarrow>
          kept_hits (metadata_table m document_id)
            (top_k (fi_entries index) (generate_embedding (embedding_service m) query) k))"

text \<open>
  The dimension \<open>D\<close> an addition is checked against: that of the document's index, or of
  the index \<open>add_embeddings\<close> is about to create.
\<close>

definition index_dimension :: "'a index_manager_scheme \<Rightarrow> string \<Rightarrow> nat" where
  "index_dimension m document_id =
     (case indices m document_id of
        None \<Rightarrow> get_dimension (embedding_service m)
      | Some index \<Rightarrow> fi_d index)"

text \<open>
  The manager after the first statement of \<open>add_embeddings\<close>, which creates the index
  of a document that has none.
\<close>

definition with_index :: "'a index_manager_scheme \<Rightarrow> string \<Rightarrow> 'a index_manager_scheme" where
  "with_index m document_id =
     (if indices m document_id = None then create_index m document_id else m)"

text \<open>The vectors held by the global index; none while it has not been created.\<close>

definition global_vectors :: "global_index_manager \<Rightarrow> (int \<times> vec) list" where
  "global_vectors g = (case global_index g of None \<Rightarrow> [] | Some index \<Rightarrow> ivf_entries index)"

text \<open>A search that visits every partition, as it does when \<open>nlist\<close> is at most 10.\<close>

definition probe_all :: "ivf_index \<Rightarrow> vec \<Rightarrow> (int \<times> vec) list" where
  "probe_all index q = ivf_entries index"


section \<open>Concrete managers\<close>

text \<open>
  A model of dimension 2 that embeds every text as \<open>(1, 0)\<close>, and one of dimension
  384, the dimension of \<open>all-MiniLM-L6-v2\<close>.
\<close>

definition plane_model :: embedding_service where
  "plane_model = \<lparr>es_dimension = 2, es_encode = (\<lambda>q. [1, 0])\<rparr>"

definition minilm_model :: embedding_service where
  "minilm_model = \<lparr>es_dimension = 384, es_encode = (\<lambda>q. replicate 384 0)\<rparr>"

definition plane_manager :: index_manager where
  "plane_manager = new_index_manager ''/tmp/faiss_indices'' plane_model"

definition minilm_manager :: index_manager where
  "minilm_manager = new_index_manager ''/tmp/faiss_indices'' minilm_model"

definition plane_global :: global_index_manager where
  "plane_global = new_global_index_manager ''/tmp/faiss_indices'' plane_model 3"

text \<open>Three chunks, the first two with the same vector.\<close>

definition three_chunks :: index_manager where
  "three_chunks =
     snd (add_embeddings plane_manager ''doc'' [''c0'', ''c1'', ''c2'']
            [[1, 0], [1, 0], [2, 0]]
            [[(''content'', Py_str ''alpha''), (''page_number'', Py_int 1)],
             [(''content'', Py_str ''beta''), (''page_number'', Py_int 1)],
             [(''content'', Py_str ''gamma''), (''page_number'', Py_int 2)]])"

text \<open>Two chunk ids and two vectors, added with one metadata dictionary.\<close>

definition orphaned :: index_manager where
  "orphaned =
     snd (add_embeddings plane_manager ''doc'' [''c0'', ''c1'']
            [[1, 0], [0, 1]] [[(''content'', Py_str ''alpha'')]])"

text \<open>A global index created with three seed vectors, which trains it and adds nothing.\<close>

definition trained_global :: global_index_manager where
  "trained_global = snd (create_global_index plane_global (Some [[1, 0], [0, 1], [1, 1]]))"

text \<open>Three vectors added to the global index with two metadata dictionaries.\<close>

definition global_orphaned :: global_index_manager where
  "global_orphaned =
     snd (add_to_global_index plane_global ''doc'' [''c0'', ''c1'', ''c2'']
            [[1, 0], [0, 1], [1, 1]] [[(''content'', Py_str ''alpha'')], []])"


section \<open>Properties of the chunker\<close>

lemma length_py_strip: "length (py_strip s) \<le> length s"
proof -
  have "length (py_strip s) \<le> length (dropWhile is_space s)"
    unfolding py_strip_def using length_dropWhile_le[of is_space "rev (dropWhile is_space s)"] by simp
  also have "\<dots> \<le> length s" by (rule length_dropWhile_le)
  finally show ?thesis .
qed

text \<open>
  A window that the step maps to itself while the loop condition holds is never left:
  the loop exhausts every bound.
\<close>

lemma chunk_loop_stuck:
  "chunk_step p txt page_texts w = Inr w \<Longrightarrow> w_start w < py_len txt
     \<Longrightarrow> chunk_loop fuel p txt page_texts w = None"
  by (induction fuel) auto

text \<open>
  Such a window exists whenever the overlap is positive and smaller than
  \<open>min_chunk_size\<close>: the last window, of the width of the overlap, is too short to be
  kept, so the guard compares the new start with an older chunk and lets it stand.
\<close>

lemma chunk_step_final_window:
  assumes "w_start w = py_len txt - chunk_overlap p"
      and "0 < chunk_overlap p" and "chunk_overlap p < min_chunk_size p"
      and "chunk_overlap p \<le> chunk_size p" and "chunk_overlap p \<le> py_len txt"
      and "w_chunks w = [] \<or> start_char (last (w_chunks w)) < w_start w"
  shows "chunk_step p txt page_texts w = Inr w"
proof -
  have e: "window_end p txt (w_start w) = Inr (py_len txt)"
    using assms by (simp add: window_end_def Let_def)
  have "length (py_slice txt (w_start w) (py_len txt)) \<le> nat (chunk_overlap p)"
    using assms by (simp add: py_slice_def Let_def py_len_def)
  then have "py_len (py_strip (py_slice txt (w_start w) (py_len txt))) \<le> chunk_overlap p"
    using length_py_strip[of "py_slice txt (w_start w) (py_len txt)"] assms(2)
    by (simp add: py_len_def)
  then have small: "\<not> py_len (py_strip (py_slice txt (w_start w) (py_len txt))) \<ge> min_chunk_size p"
    using assms(3) by simp
  have e': "window_end p txt (py_len txt - chunk_overlap p) = Inr (py_len txt)"
    using e assms(1) by simp
  show ?thesis
    using assms(1,6) small by (auto simp: chunk_step_def e' Let_def)
qed


text \<open>
  Claim C1: for every configuration and text, \<open>chunk_text\<close> terminates and every pass
  of the window loop moves the start forward. The code has a guard for this, commented
  ``Prevent infinite loop'', and the guard misses a case: with \<open>chunk_size = 10\<close>,
  \<open>chunk_overlap = 2\<close>, \<open>min_chunk_size = 5\<close> and a text of twelve letters the third
  pass starts at 10 and ends with the start at 10 again, so the call returns under no
  bound on the number of passes.
\<close>

theorem chunk_text_small_overlap_never_returns:
  "chunk_step \<lparr>chunk_size = 10, chunk_overlap = 2, min_chunk_size = 5\<rparr> ''aaaaaaaaaaaa'' []
     \<lparr>w_start = 10, w_chunk_index = 1,
      w_chunks = [\<lparr>content = ''aaaaaaaaaa'', page_number = 1, chunk_index = 0,
                   start_char = 0, end_char = 10, token_count = 2\<rparr>]\<rparr>
   = Inr \<lparr>w_start = 10, w_chunk_index = 1,
          w_chunks = [\<lparr>content = ''aaaaaaaaaa'', page_number = 1, chunk_index = 0,
                       start_char = 0, end_char = 10, token_count = 2\<rparr>]\<rparr>
   \<and> chunk_text fuel \<lparr>chunk_size = 10, chunk_overlap = 2, min_chunk_size = 5\<rparr> (\<lambda>s. s)
       ''aaaaaaaaaaaa'' [] = None"
proof -
  let ?p = "\<lparr>chunk_size = 10, chunk_overlap = 2, min_chunk_size = 5\<rparr>"
  let ?t = "''aaaaaaaaaaaa''"
  let ?c = "\<lparr>content = ''aaaaaaaaaa'', page_number = 1, chunk_index = 0,
             start_char = 0, end_char = 10, token_count = 2\<rparr>"
  have len: "py_len ?t = 12" by (simp add: py_len_def)
  have clean: "clean_text (\<lambda>s. s) ?t = ?t" by code_simp
  have s1: "chunk_step ?p ?t [] \<lparr>w_start = 0, w_chunk_index = 0, w_chunks = []\<rparr>
              = Inr \<lparr>w_start = 8, w_chunk_index = 1, w_chunks = [?c]\<rparr>"
    by code_simp
  have s2: "chunk_step ?p ?t [] \<lparr>w_start = 8, w_chunk_index = 1, w_chunks = [?c]\<rparr>
              = Inr \<lparr>w_start = 10, w_chunk_index = 1, w_chunks = [?c]\<rparr>"
    by code_simp
  have s3: "chunk_step ?p ?t [] \<lparr>w_start = 10, w_chunk_index = 1, w_chunks = [?c]\<rparr>
              = Inr \<lparr>w_start = 10, w_chunk_index = 1, w_chunks = [?c]\<rparr>"
    by (rule chunk_step_final_window) (simp_all add: len)
  have l3: "chunk_loop n ?p ?t [] \<lparr>w_start = 10, w_chunk_index = 1, w_chunks = [?c]\<rparr> = None" for n
    by (rule chunk_loop_stuck) (simp_all add: s3 len)
  have l2: "chunk_loop n ?p ?t [] \<lparr>w_start = 8, w_chunk_index = 1, w_chunks = [?c]\<rparr> = None" for n
    by (cases n) (simp_all add: s2 len l3)
  have l1: "chunk_loop n ?p ?t [] \<lparr>w_start = 0, w_chunk_index = 0, w_chunks = []\<rparr> = None" for n
    by (cases n) (simp_all add: s1 len l2)
  have "chunk_text fuel ?p (\<lambda>s. s) ?t [] = None"
    by (simp add: chunk_text_def clean len l1)
  with s3 show ?thesis by simp
qed

text \<open>
  Claim C9: a text whose normalized length is below \<open>min_chunk_size\<close> gives exactly one
  chunk: the whole normalized text, from 0 to its length, on page 1, with index 0.
\<close>

theorem chunk_text_short_document:
  "py_len (clean_text nfkc raw) < min_chunk_size p \<Longrightarrow>
   chunk_text fuel p nfkc raw page_texts =
     Some (Inr [\<lparr>content = clean_text nfkc raw, page_number = 1, chunk_index = 0,
                 start_char = 0, end_char = py_len (clean_text nfkc raw),
                 token_count = estimate_tokens (clean_text nfkc raw)\<rparr>])"
  by (simp add: chunk_text_def Let_def)

text \<open>Claim C9 at the default configuration and a text of twelve characters once cleaned.\<close>

theorem chunk_text_short_document_witness:
  "py_len (clean_text (\<lambda>s. s) ''  Hello   world. '')
     < min_chunk_size \<lparr>chunk_size = 1000, chunk_overlap = 200, min_chunk_size = 100\<rparr>
   \<and> chunk_text 0 \<lparr>chunk_size = 1000, chunk_overlap = 200, min_chunk_size = 100\<rparr> (\<lambda>s. s)
       ''  Hello   world. '' []
     = Some (Inr [\<lparr>content = ''Hello world.'', page_number = 1, chunk_index = 0,
                   start_char = 0, end_char = 12, token_count = 3\<rparr>])"
proof -
  have clean: "clean_text (\<lambda>s. s) ''  Hello   world. '' = ''Hello world.''"
    by code_simp
  show ?thesis
    using chunk_text_short_document[of "\<lambda>s. s" "''  Hello   world. ''"
            "\<lparr>chunk_size = 1000, chunk_overlap = 200, min_chunk_size = 100\<rparr>" 0 "[]"]
    by (simp add: clean py_len_def estimate_tokens_def)
qed


section \<open>Properties of the result loops and of the library model\<close>

lemma build_results_kept:
  "build_results table document_id hits =
     map (\<lambda>(score, idx). result_of (meta_of table idx) score (Py_str document_id)) (kept_hits table hits)"
proof (induction hits)
  case Nil
  then show ?case by (simp add: kept_hits_def)
next
  case (Cons h hits)
  obtain score idx where h: "h = (score, idx)" by (cases h)
  from Cons show ?case
    unfolding h by (cases "idx = - 1"; cases "meta_of table idx = []") (simp_all add: kept_hits_def Let_def)
qed

lemma build_global_results_kept:
  "build_global_results table hits =
     map (\<lambda>(score, idx). result_of (meta_of table idx) score
            (dict_get (meta_of table idx) ''document_id'' (Py_str []))) (kept_hits table hits)"
proof (induction hits)
  case Nil
  then show ?case by (simp add: kept_hits_def)
next
  case (Cons h hits)
  obtain score idx where h: "h = (score, idx)" by (cases h)
  from Cons show ?case
    unfolding h by (cases "idx = - 1"; cases "meta_of table idx = []") (simp_all add: kept_hits_def Let_def)
qed

lemma hit_before_total: "hit_before a b \<or> hit_before b a"
  by (auto simp: hit_before_def)

lemma hit_before_trans: "hit_before a b \<Longrightarrow> hit_before b c \<Longrightarrow> hit_before a c"
  by (auto simp: hit_before_def)

lemma set_insert_hit: "set (insert_hit h hs) = insert h (set hs)"
  by (induction hs) auto

lemma sorted_insert_hit: "sorted_wrt hit_before hs \<Longrightarrow> sorted_wrt hit_before (insert_hit h hs)"
proof (induction hs)
  case Nil
  then show ?case by simp
next
  case (Cons x xs)
  show ?case
  proof (cases "hit_before h x")
    case True
    with Cons.prems show ?thesis
      by (auto intro: hit_before_trans)
  next
    case False
    then have "hit_before x h" using hit_before_total by blast
    with Cons False show ?thesis
      by (auto simp: set_insert_hit)
  qed
qed

lemma sorted_sort_hits: "sorted_wrt hit_before (sort_hits hs)"
  unfolding sort_hits_def by (induction hs) (simp_all add: sorted_insert_hit)

lemma length_insert_hit: "length (insert_hit h hs) = Suc (length hs)"
  by (induction hs) auto

lemma length_sort_hits: "length (sort_hits hs) = length hs"
  unfolding sort_hits_def by (induction hs) (simp_all add: length_insert_hit)

lemma kept_hits_append: "kept_hits table (xs @ ys) = kept_hits table xs @ kept_hits table ys"
  by (simp add: kept_hits_def)

lemma kept_hits_pad: "kept_hits table (replicate n (s, - 1)) = []"
  by (induction n) (simp_all add: kept_hits_def Let_def)

lemma kept_hits_top_k:
  "kept_hits table (top_k entries q k) =
     kept_hits table (take (nat k) (sort_hits (map (\<lambda>(i, v). (inner_product q v, i)) entries)))"
  by (simp add: top_k_def Let_def kept_hits_append kept_hits_pad)

lemma sorted_kept_top_k: "sorted_wrt hit_before (kept_hits table (top_k entries q k))"
  unfolding kept_hits_top_k unfolding kept_hits_def
  by (intro sorted_wrt_filter sorted_wrt_take sorted_sort_hits)

lemma length_kept_top_k: "length (kept_hits table (top_k entries q k)) \<le> nat k"
proof -
  have "length (kept_hits table (top_k entries q k))
          \<le> length (take (nat k) (sort_hits (map (\<lambda>(i, v). (inner_product q v, i)) entries)))"
    unfolding kept_hits_top_k unfolding kept_hits_def by (rule length_filter_le)
  then show ?thesis by simp
qed

lemma kept_hits_no_meta: "map_of table idx = None \<Longrightarrow> (score, idx) \<notin> set (kept_hits table hits)"
  by (simp add: kept_hits_def meta_of_def)

lemma build_results_pad: "build_results table d (replicate n (s, - 1)) = []"
  by (simp add: build_results_kept kept_hits_pad)


section \<open>Properties of the per-document index\<close>

lemma length_numeric_ids: "length (numeric_ids s xs) = length xs"
  by (simp add: numeric_ids_def)

lemma indices_create_index: "indices (create_index m d) d = Some (new_flat_index (get_dimension (embedding_service m)))"
  by (simp add: create_index_def log_to_def)

lemma metadata_create_index: "metadata (create_index m d) d = Some []"
  by (simp add: create_index_def log_to_def)

lemma add_embeddings_failure:
  assumes "indices m d \<noteq> None \<Longrightarrow> metadata m d \<noteq> None"
      and "fst (add_embeddings m d cids embs metas) = Inl err"
  shows "snd (add_embeddings m d cids embs metas) = (if indices m d = None then create_index m d else m)
         \<and> err = AssertionError"
proof -
  let ?m1 = "if indices m d = None then create_index m d else m"
  have tbl: "metadata ?m1 d \<noteq> None"
    using assms(1) by (auto simp: metadata_create_index)
  obtain index where idx: "indices ?m1 d = Some index"
    by (cases "indices m d") (auto simp: indices_create_index)
  show ?thesis
  proof (cases "add_with_ids index embs (numeric_ids (metadata_count ?m1 d) cids)")
    case (Inl e)
    then have "e = AssertionError"
      by (auto simp: add_with_ids_def split: if_splits)
    with Inl idx assms(2) show ?thesis
      by (simp add: add_embeddings_def Let_def)
  next
    case (Inr index')
    from tbl obtain table where "metadata ?m1 d = Some table" by blast
    with Inr idx assms(2) show ?thesis
      by (simp add: add_embeddings_def Let_def split: if_splits)
  qed
qed

lemma add_embeddings_rejects:
  assumes "\<not> has_dimension (index_dimension m d) embs \<or> length embs \<noteq> length cids"
  shows "add_embeddings m d cids embs metas
           = (Inl AssertionError, if indices m d = None then create_index m d else m)"
proof -
  let ?m1 = "if indices m d = None then create_index m d else m"
  obtain index where idx: "indices ?m1 d = Some index" and dim: "fi_d index = index_dimension m d"
    by (cases "indices m d") (auto simp: indices_create_index index_dimension_def new_flat_index_def)
  have "add_with_ids index embs (numeric_ids (metadata_count ?m1 d) cids) = Inl AssertionError"
    using assms dim by (auto simp: add_with_ids_def length_numeric_ids)
  with idx show ?thesis
    unfolding add_embeddings_def by (simp add: Let_def)
qed

lemma add_embeddings_accepts:
  assumes "indices m d \<noteq> None \<Longrightarrow> metadata m d \<noteq> None"
      and "has_dimension (index_dimension m d) embs" and "length embs = length cids"
  shows "fst (add_embeddings m d cids embs metas) = Inr ()"
proof -
  let ?m1 = "if indices m d = None then create_index m d else m"
  have tbl: "metadata ?m1 d \<noteq> None"
    using assms(1) by (auto simp: metadata_create_index)
  then obtain table where t: "metadata ?m1 d = Some table" by blast
  obtain index where idx: "indices ?m1 d = Some index" and dim: "fi_d index = index_dimension m d"
    by (cases "indices m d") (auto simp: indices_create_index index_dimension_def new_flat_index_def)
  have "\<exists>index'. add_with_ids index embs (numeric_ids (metadata_count ?m1 d) cids) = Inr index'"
    using assms dim by (auto simp: add_with_ids_def length_numeric_ids)
  with idx t show ?thesis
    by (auto simp: add_embeddings_def Let_def)
qed

text \<open>
  What the metadata loop leaves in the table: the entry of the \<open>i\<close>-th pair under the
  ordinal \<open>s + i\<close>, and every other ordinal as it was.
\<close>

lemma map_of_store_metadata:
  "map_of (store_metadata table s pairs) k =
     (if s \<le> k \<and> k < s + int (length pairs)
      then Some (meta_entry (fst (pairs ! nat (k - s))) (snd (pairs ! nat (k - s))))
      else map_of table k)"
proof (induction pairs arbitrary: table s)
  case Nil
  then show ?case by auto
next
  case (Cons p rest)
  obtain cid meta where p: "p = (cid, meta)" by (cases p)
  show ?case
  proof (cases "k = s")
    case True
    with Cons.IH[of "AList.update s (meta_entry cid meta) table" "s + 1"]
    show ?thesis by (simp add: p update_conv)
  next
    case False
    show ?thesis
    proof (cases "s < k \<and> k < s + 1 + int (length rest)")
      case True
      then have "nat (k - s) = Suc (nat (k - (s + 1)))" by arith
      with True show ?thesis by (simp add: p Cons.IH)
    next
      case out: False
      with False show ?thesis by (auto simp: p Cons.IH update_conv)
    qed
  qed
qed

lemma add_embeddings_stores:
  assumes "indices (with_index m d) d = Some index"
      and "metadata (with_index m d) d = Some table"
      and "has_dimension (fi_d index) embs" and "length embs = length cids"
  shows "add_embeddings m d cids embs metas =
           (Inr (),
            log_to INFO (Added_embeddings (py_len cids) d)
              ((with_index m d)
                 \<lparr>indices := (indices (with_index m d))
                     (d \<mapsto> index\<lparr>fi_entries := fi_entries index
                                      @ zip (numeric_ids (py_len table) cids) embs\<rparr>),
                  metadata := (metadata (with_index m d))
                     (d \<mapsto> store_metadata table (py_len table) (zip cids metas))\<rparr>))"
proof -
  let ?m1 = "with_index m d"
  have m1: "(if indices m d = None then create_index m d else m) = ?m1"
    by (simp add: with_index_def)
  have cnt: "metadata_count ?m1 d = py_len table"
    using assms(2) by (simp add: metadata_count_def)
  have add: "add_with_ids index embs (numeric_ids (py_len table) cids)
               = Inr (index\<lparr>fi_entries := fi_entries index @ zip (numeric_ids (py_len table) cids) embs\<rparr>)"
    using assms(3,4) by (simp add: add_with_ids_def length_numeric_ids)
  show ?thesis
  proof (cases "zip cids metas = []")
    case True
    have upd: "(metadata ?m1)(d \<mapsto> table) = metadata ?m1"
      using assms(2) by (simp add: map_upd_triv)
    have e: "store_metadata table (py_len table) (zip cids metas) = table"
      by (simp only: True store_metadata.simps)
    have "add_embeddings m d cids embs metas =
            (Inr (), log_to INFO (Added_embeddings (py_len cids) d)
               (?m1\<lparr>indices := (indices ?m1)
                     (d \<mapsto> index\<lparr>fi_entries := fi_entries index
                                      @ zip (numeric_ids (py_len table) cids) embs\<rparr>)\<rparr>))"
      unfolding add_embeddings_def m1 using True by (simp add: Let_def assms(1,2) cnt add)
    then show ?thesis
      unfolding e upd by simp
  next
    case False
    then show ?thesis
      unfolding add_embeddings_def m1 by (simp add: Let_def assms(1,2) cnt add)
  qed
qed

lemma index_meta_file_distinct: "index_file m d \<noteq> meta_file m d"
  by (auto simp: index_file_def meta_file_def path_join_def)

lemma fst_search_cong:
  assumes "indices m' d = indices m d" and "metadata_table m' d = metadata_table m d"
      and "embedding_service m' = embedding_service m"
  shows "fst (search m' d q k) = fst (search m d q k)"
  using assms by (simp add: search_def Let_def split: option.splits sum.splits)


subsection \<open>The concrete managers, evaluated\<close>

lemmas manager_defs =
  plane_manager_def minilm_manager_def plane_global_def new_index_manager_def
  new_global_index_manager_def plane_model_def minilm_model_def
  add_embeddings_def create_index_def log_to_def new_flat_index_def get_dimension_def
  metadata_count_def py_len_def add_with_ids_def has_dimension_def numeric_ids_def
  meta_entry_def Let_def

lemma three_chunks_index:
  "indices three_chunks ''doc'' = Some \<lparr>fi_d = 2, fi_entries = [(0, [1, 0]), (1, [1, 0]), (2, [2, 0])]\<rparr>"
  by (simp add: three_chunks_def manager_defs upt_rec)

lemma three_chunks_table:
  "metadata_table three_chunks ''doc'' =
     [(0, [(''chunk_id'', Py_str ''c0''), (''content'', Py_str ''alpha''), (''page_number'', Py_int 1)]),
      (1, [(''chunk_id'', Py_str ''c1''), (''content'', Py_str ''beta''), (''page_number'', Py_int 1)]),
      (2, [(''chunk_id'', Py_str ''c2''), (''content'', Py_str ''gamma''), (''page_number'', Py_int 2)])]"
  by (simp add: three_chunks_def metadata_table_def manager_defs upt_rec)

lemma three_chunks_service: "embedding_service three_chunks = plane_model"
  by (simp add: three_chunks_def manager_defs upt_rec)

lemma three_chunks_top:
  "top_k [(0, [1, 0]), (1, [1, 0]), (2, [2, 0])] [1, 0] 2 = [(2, 2), (1, 0)]"
  by (simp add: top_k_def sort_hits_def inner_product_def hit_before_def)

lemma three_chunks_search:
  "fst (search three_chunks ''doc'' ''q'' 2) =
     Inr [\<lparr>sr_chunk_id = Py_str ''c2'', sr_content = Py_str ''gamma'', sr_score = 2,
            sr_page_number = Py_int 2, sr_document_id = Py_str ''doc''\<rparr>,
          \<lparr>sr_chunk_id = Py_str ''c0'', sr_content = Py_str ''alpha'', sr_score = 1,
            sr_page_number = Py_int 1, sr_document_id = Py_str ''doc''\<rparr>]"
  by (simp add: search_def three_chunks_index three_chunks_table three_chunks_service
        flat_search_def generate_embedding_def plane_model_def three_chunks_top
        meta_of_def result_of_def dict_get_def)

lemma orphaned_index:
  "indices orphaned ''doc'' = Some \<lparr>fi_d = 2, fi_entries = [(0, [1, 0]), (1, [0, 1])]\<rparr>"
  by (simp add: orphaned_def manager_defs upt_rec)

lemma orphaned_table:
  "metadata_table orphaned ''doc'' = [(0, [(''chunk_id'', Py_str ''c0''), (''content'', Py_str ''alpha'')])]"
  by (simp add: orphaned_def metadata_table_def manager_defs upt_rec)

lemma orphaned_service: "embedding_service orphaned = plane_model"
  by (simp add: orphaned_def manager_defs upt_rec)

lemma orphaned_top: "top_k [(0, [1, 0]), (1, [0, 1])] [1, 0] 2 = [(1, 0), (0, 1)]"
  by (simp add: top_k_def sort_hits_def inner_product_def hit_before_def)

lemma global_orphaned_state:
  "global_index global_orphaned
     = Some \<lparr>ivf_d = 2, ivf_nlist = 3, ivf_is_trained = True,
             ivf_training = [[1, 0], [0, 1], [1, 1]], ivf_nprobe = 1,
             ivf_entries = [(0, [1, 0]), (1, [0, 1]), (2, [1, 1])]\<rparr>"
  "global_metadata global_orphaned
     = [(0, [(''chunk_id'', Py_str ''c0''), (''document_id'', Py_str ''doc''),
             (''content'', Py_str ''alpha'')]),
        (1, [(''chunk_id'', Py_str ''c1''), (''document_id'', Py_str ''doc'')])]"
  "is_trained global_orphaned" "nlist global_orphaned = 3"
  "embedding_service global_orphaned = plane_model"
  by (simp_all add: global_orphaned_def add_to_global_index_def create_global_index_def
        train_on_batch_def add_trained_def ivf_train_def ivf_add_with_ids_def new_ivf_index_def
        global_meta_entry_def manager_defs upt_rec)


subsection \<open>add\_embeddings\<close>

text \<open>
  Claim C2, as stated, at the spec's scenario: a vector of dimension 300 is added for a
  document that has no index yet, under the model of dimension 384. The call fails, and
  the index it created first stays registered: the statistics of the document, empty
  before the call, afterwards show an index with no vector.
\<close>

theorem failed_add_registers_index:
  "fst (add_embeddings minilm_manager ''doc'' [''c0''] [replicate 300 0] [[]]) = Inl AssertionError
   \<and> get_index_stats minilm_manager ''doc'' = None
   \<and> get_index_stats (snd (add_embeddings minilm_manager ''doc'' [''c0''] [replicate 300 0] [[]])) ''doc''
       = Some \<lparr>total_vectors = 0, dimension = 384, metadata_entries = 0\<rparr>"
  by (simp add: get_index_stats_def ntotal_def manager_defs)


text \<open>
  Claim C2, amended: in a manager that holds a metadata table for every index, an
  addition containing a vector of dimension other than \<open>D\<close> fails with the library's
  \<open>AssertionError\<close>, and after any failed addition the manager is what it was before
  the call when the document had an index, and otherwise what \<open>create_index\<close> makes of
  it: an empty index and an empty table for the document, and nothing else.
\<close>

theorem failed_add_inserts_nothing:
  assumes "indices m document_id \<noteq> None \<longrightarrow> metadata m document_id \<noteq> None"
  shows "(\<not> has_dimension (index_dimension m document_id) embeddings \<longrightarrow>
            fst (add_embeddings m document_id chunk_ids embeddings chunk_metadata) = Inl AssertionError)
       \<and> (\<forall>err. fst (add_embeddings m document_id chunk_ids embeddings chunk_metadata) = Inl err \<longrightarrow>
            snd (add_embeddings m document_id chunk_ids embeddings chunk_metadata)
              = (if indices m document_id = None then create_index m document_id else m))"
  using assms add_embeddings_failure[of m document_id chunk_ids embeddings chunk_metadata]
        add_embeddings_rejects[of m document_id embeddings chunk_ids chunk_metadata]
  by (metis fst_conv)


text \<open>Claim C2, amended, at an existing empty index and a vector of dimension 3.\<close>

theorem failed_add_inserts_nothing_witness:
  "indices (create_index plane_manager ''doc'') ''doc'' = Some (new_flat_index 2)
   \<and> metadata (create_index plane_manager ''doc'') ''doc'' = Some []
   \<and> \<not> has_dimension (index_dimension (create_index plane_manager ''doc'') ''doc'') [[1, 0, 0]]
   \<and> fst (add_embeddings (create_index plane_manager ''doc'') ''doc'' [''c0''] [[1, 0, 0]] [[]])
       = Inl AssertionError
   \<and> snd (add_embeddings (create_index plane_manager ''doc'') ''doc'' [''c0''] [[1, 0, 0]] [[]])
       = create_index plane_manager ''doc''"
  using failed_add_inserts_nothing[of "create_index plane_manager ''doc''" "''doc''" "[[1, 0, 0]]"
          "[''c0'']" "[[]]"]
  by (simp add: indices_create_index metadata_create_index index_dimension_def has_dimension_def
        new_flat_index_def get_dimension_def plane_manager_def new_index_manager_def plane_model_def)


text \<open>
  Claim C4, as stated, at two chunk ids, two vectors and one metadata dictionary: the
  three sequences differ in length and the addition succeeds, storing two vectors and
  one metadata entry.
\<close>

theorem add_with_short_metadata_succeeds:
  "fst (add_embeddings plane_manager ''doc'' [''c0'', ''c1''] [[1, 0], [0, 1]]
          [[(''content'', Py_str ''alpha'')]]) = Inr ()
   \<and> get_index_stats orphaned ''doc''
       = Some \<lparr>total_vectors = 2, dimension = 2, metadata_entries = 1\<rparr>"
  by (simp add: orphaned_def get_index_stats_def ntotal_def manager_defs upt_rec)


text \<open>
  Claim C4, amended: an addition whose number of vectors differs from its number of
  chunk ids fails with the library's \<open>AssertionError\<close> and stores nothing (a document
  without an index is left with the empty one \<open>create_index\<close> made). When the two
  numbers agree and the dimensions are right, the addition succeeds whatever the length
  of the metadata sequence: every vector is appended under the ordinals that continue
  the table's count, the \<open>i\<close>-th chunk id is paired with the \<open>i\<close>-th metadata
  dictionary for every \<open>i\<close> below the shorter of the two lengths, and no other entry
  of the table changes.
\<close>

theorem add_length_checks:
  "(length embeddings \<noteq> length chunk_ids \<longrightarrow>
      add_embeddings m document_id chunk_ids embeddings chunk_metadata
        = (Inl AssertionError,
           if indices m document_id = None then create_index m document_id else m))
   \<and> (length embeddings = length chunk_ids
        \<and> has_dimension (index_dimension m document_id) embeddings
        \<and> (indices m document_id \<noteq> None \<longrightarrow> metadata m document_id \<noteq> None) \<longrightarrow>
      fst (add_embeddings m document_id chunk_ids embeddings chunk_metadata) = Inr ()
      \<and> (\<exists>index table.
            indices (with_index m document_id) document_id = Some index
          \<and> metadata (with_index m document_id) document_id = Some table
          \<and> snd (add_embeddings m document_id chunk_ids embeddings chunk_metadata)
              = log_to INFO (Added_embeddings (py_len chunk_ids) document_id)
                  ((with_index m document_id)
                     \<lparr>indices := (indices (with_index m document_id))
                         (document_id \<mapsto>
                            index\<lparr>fi_entries := fi_entries index
                                     @ zip (numeric_ids (py_len table) chunk_ids) embeddings\<rparr>),
                      metadata := (metadata (with_index m document_id))
                         (document_id \<mapsto>
                            store_metadata table (py_len table)
                              (zip chunk_ids chunk_metadata))\<rparr>)
          \<and> (\<forall>i. i < min (length chunk_ids) (length chunk_metadata) \<longrightarrow>
                map_of (store_metadata table (py_len table) (zip chunk_ids chunk_metadata))
                  (py_len table + int i)
                  = Some (meta_entry (chunk_ids ! i) (chunk_metadata ! i)))
          \<and> (\<forall>ordinal.
                ordinal < py_len table
                \<or> py_len table + int (min (length chunk_ids) (length chunk_metadata)) \<le> ordinal \<longrightarrow>
                map_of (store_metadata table (py_len table) (zip chunk_ids chunk_metadata)) ordinal
                  = map_of table ordinal)))"
proof (intro conjI impI)
  assume "length embeddings \<noteq> length chunk_ids"
  then show "add_embeddings m document_id chunk_ids embeddings chunk_metadata
        = (Inl AssertionError,
           if indices m document_id = None then create_index m document_id else m)"
    using add_embeddings_rejects[of m document_id embeddings chunk_ids chunk_metadata] by simp
next
  assume a: "length embeddings = length chunk_ids
        \<and> has_dimension (index_dimension m document_id) embeddings
        \<and> (indices m document_id \<noteq> None \<longrightarrow> metadata m document_id \<noteq> None)"
  then show "fst (add_embeddings m document_id chunk_ids embeddings chunk_metadata) = Inr ()"
    using add_embeddings_accepts[of m document_id embeddings chunk_ids chunk_metadata] by blast
  let ?m1 = "with_index m document_id"
  obtain index where idx: "indices ?m1 document_id = Some index"
    and dim: "fi_d index = index_dimension m document_id"
    by (cases "indices m document_id")
       (auto simp: with_index_def indices_create_index index_dimension_def new_flat_index_def)
  have "metadata ?m1 document_id \<noteq> None"
    using a by (auto simp: with_index_def metadata_create_index)
  then obtain table where tbl: "metadata ?m1 document_id = Some table" by blast
  have st: "snd (add_embeddings m document_id chunk_ids embeddings chunk_metadata)
              = log_to INFO (Added_embeddings (py_len chunk_ids) document_id)
                  (?m1\<lparr>indices := (indices ?m1)
                         (document_id \<mapsto>
                            index\<lparr>fi_entries := fi_entries index
                                     @ zip (numeric_ids (py_len table) chunk_ids) embeddings\<rparr>),
                      metadata := (metadata ?m1)
                         (document_id \<mapsto>
                            store_metadata table (py_len table)
                              (zip chunk_ids chunk_metadata))\<rparr>)"
    using add_embeddings_stores[OF idx tbl, of embeddings chunk_ids chunk_metadata] a dim by simp
  have p1: "\<forall>i. i < min (length chunk_ids) (length chunk_metadata) \<longrightarrow>
                map_of (store_metadata table (py_len table) (zip chunk_ids chunk_metadata))
                  (py_len table + int i)
                  = Some (meta_entry (chunk_ids ! i) (chunk_metadata ! i))"
    by (simp add: map_of_store_metadata)
  have p2: "\<forall>ordinal.
                ordinal < py_len table
                \<or> py_len table + int (min (length chunk_ids) (length chunk_metadata)) \<le> ordinal \<longrightarrow>
                map_of (store_metadata table (py_len table) (zip chunk_ids chunk_metadata)) ordinal
                  = map_of table ordinal"
    by (auto simp: map_of_store_metadata)
  from idx tbl st p1 p2
  show "\<exists>index table.
            indices ?m1 document_id = Some index
          \<and> metadata ?m1 document_id = Some table
          \<and> snd (add_embeddings m document_id chunk_ids embeddings chunk_metadata)
              = log_to INFO (Added_embeddings (py_len chunk_ids) document_id)
                  (?m1\<lparr>indices := (indices ?m1)
                         (document_id \<mapsto>
                            index\<lparr>fi_entries := fi_entries index
                                     @ zip (numeric_ids (py_len table) chunk_ids) embeddings\<rparr>),
                      metadata := (metadata ?m1)
                         (document_id \<mapsto>
                            store_metadata table (py_len table)
                              (zip chunk_ids chunk_metadata))\<rparr>)
          \<and> (\<forall>i. i < min (length chunk_ids) (length chunk_metadata) \<longrightarrow>
                map_of (store_metadata table (py_len table) (zip chunk_ids chunk_metadata))
                  (py_len table + int i)
                  = Some (meta_entry (chunk_ids ! i) (chunk_metadata ! i)))
          \<and> (\<forall>ordinal.
                ordinal < py_len table
                \<or> py_len table + int (min (length chunk_ids) (length chunk_metadata)) \<le> ordinal \<longrightarrow>
                map_of (store_metadata table (py_len table) (zip chunk_ids chunk_metadata)) ordinal
                  = map_of table ordinal)"
    by blast
qed

text \<open>
  Claim C4, amended, at five chunk ids with four vectors, and at two chunk ids with two
  vectors and one metadata dictionary.
\<close>

theorem add_length_checks_witness:
  "length [[1, 0], [0, 1], [1, 1], [2, 0 :: real]] \<noteq> length [''c0'', ''c1'', ''c2'', ''c3'', ''c4'']
   \<and> fst (add_embeddings plane_manager ''doc'' [''c0'', ''c1'', ''c2'', ''c3'', ''c4'']
            [[1, 0], [0, 1], [1, 1], [2, 0]] [[], [], [], [], []]) = Inl AssertionError
   \<and> length [[1, 0], [0, 1 :: real]] = length [''c0'', ''c1'']
   \<and> has_dimension (index_dimension plane_manager ''doc'') [[1, 0], [0, 1]]
   \<and> indices plane_manager ''doc'' = None
   \<and> fst (add_embeddings plane_manager ''doc'' [''c0'', ''c1''] [[1, 0], [0, 1]]
            [[(''content'', Py_str ''alpha'')]]) = Inr ()
   \<and> indices orphaned ''doc'' = Some \<lparr>fi_d = 2, fi_entries = [(0, [1, 0]), (1, [0, 1])]\<rparr>
   \<and> metadata orphaned ''doc''
       = Some [(0, [(''chunk_id'', Py_str ''c0''), (''content'', Py_str ''alpha'')])]"
proof -
  have a: "has_dimension (index_dimension plane_manager ''doc'') [[1, 0], [0, 1]]"
    by (simp add: index_dimension_def has_dimension_def get_dimension_def plane_manager_def
          new_index_manager_def plane_model_def)
  have b: "indices plane_manager ''doc'' = None"
    by (simp add: plane_manager_def new_index_manager_def)
  have w: "with_index plane_manager ''doc'' = create_index plane_manager ''doc''"
    by (simp add: with_index_def b)
  from add_length_checks[of "[[1, 0], [0, 1], [1, 1], [2, 0]]" "[''c0'', ''c1'', ''c2'', ''c3'', ''c4'']"
         plane_manager "''doc''" "[[], [], [], [], []]"]
  have r: "fst (add_embeddings plane_manager ''doc'' [''c0'', ''c1'', ''c2'', ''c3'', ''c4'']
            [[1, 0], [0, 1], [1, 1], [2, 0]] [[], [], [], [], []]) = Inl AssertionError"
    by simp
  from add_length_checks[of "[[1, 0], [0, 1]]" "[''c0'', ''c1'']" plane_manager "''doc''"
         "[[(''content'', Py_str ''alpha'')]]"] a b
  obtain index table where
        ok: "fst (add_embeddings plane_manager ''doc'' [''c0'', ''c1''] [[1, 0], [0, 1]]
                    [[(''content'', Py_str ''alpha'')]]) = Inr ()"
    and i: "indices (with_index plane_manager ''doc'') ''doc'' = Some index"
    and t: "metadata (with_index plane_manager ''doc'') ''doc'' = Some table"
    and st: "snd (add_embeddings plane_manager ''doc'' [''c0'', ''c1''] [[1, 0], [0, 1]]
                    [[(''content'', Py_str ''alpha'')]])
              = log_to INFO (Added_embeddings (py_len [''c0'', ''c1'']) ''doc'')
                  ((with_index plane_manager ''doc'')
                     \<lparr>indices := (indices (with_index plane_manager ''doc''))
                         (''doc'' \<mapsto>
                            index\<lparr>fi_entries := fi_entries index
                                     @ zip (numeric_ids (py_len table) [''c0'', ''c1''])
                                         [[1, 0], [0, 1]]\<rparr>),
                      metadata := (metadata (with_index plane_manager ''doc''))
                         (''doc'' \<mapsto>
                            store_metadata table (py_len table)
                              (zip [''c0'', ''c1''] [[(''content'', Py_str ''alpha'')]]))\<rparr>)"
    by auto
  from i[unfolded w] have index: "index = new_flat_index 2"
    by (simp add: indices_create_index get_dimension_def plane_manager_def new_index_manager_def
          plane_model_def)
  from t[unfolded w] have table: "table = []"
    by (simp add: metadata_create_index)
  have i2: "indices orphaned ''doc'' = Some \<lparr>fi_d = 2, fi_entries = [(0, [1, 0]), (1, [0, 1])]\<rparr>"
    unfolding orphaned_def st index table
    by (simp add: log_to_def new_flat_index_def numeric_ids_def py_len_def upt_rec)
  have t2: "metadata orphaned ''doc''
       = Some [(0, [(''chunk_id'', Py_str ''c0''), (''content'', Py_str ''alpha'')])]"
    unfolding orphaned_def st index table
    by (simp add: log_to_def py_len_def meta_entry_def)
  from r ok a b i2 t2 show ?thesis by simp
qed

subsection \<open>search\<close>

text \<open>
  Claim C3, as stated: a search for a document without an index does not fail; it
  returns the empty list, the same value as a search in an index without vectors.
\<close>

theorem search_without_index_returns_empty:
  "fst (search plane_manager ''doc'' ''q'' 5) = Inr []
   \<and> fst (search (create_index plane_manager ''doc'') ''doc'' ''q'' 5) = Inr []"
  by (simp add: search_def flat_search_def top_k_def sort_hits_def generate_embedding_def
        manager_defs build_results_pad)


text \<open>
  Claim C3, amended: a search for a document without an index returns the empty list
  and logs the warning \<open>No index found\<close>; a search with \<open>k > 0\<close> and a query of the
  index's dimension in an index without vectors returns the empty list and logs
  nothing. Neither raises.
\<close>

theorem search_missing_or_empty:
  "(indices m document_id = None \<longrightarrow>
      search m document_id query k = (Inr [], log_to WARNING (No_index_found document_id) m))
   \<and> (\<forall>index. indices m document_id = Some index \<and> fi_entries index = [] \<and> 0 < k
          \<and> length (generate_embedding (embedding_service m) query) = fi_d index \<longrightarrow>
      search m document_id query k = (Inr [], m))"
  by (auto simp: search_def flat_search_def top_k_def sort_hits_def Let_def build_results_pad)


text \<open>Claim C3, amended, at a new manager, before and after \<open>create_index\<close>.\<close>

theorem search_missing_or_empty_witness:
  "indices plane_manager ''doc'' = None
   \<and> search plane_manager ''doc'' ''q'' 5
       = (Inr [], log_to WARNING (No_index_found ''doc'') plane_manager)
   \<and> indices (create_index plane_manager ''doc'') ''doc'' = Some (new_flat_index 2)
   \<and> fi_entries (new_flat_index 2) = []
   \<and> search (create_index plane_manager ''doc'') ''doc'' ''q'' 5
       = (Inr [], create_index plane_manager ''doc'')"
proof -
  have a: "indices plane_manager ''doc'' = None"
    by (simp add: plane_manager_def new_index_manager_def)
  have b: "indices (create_index plane_manager ''doc'') ''doc'' = Some (new_flat_index 2)"
    by (simp add: indices_create_index get_dimension_def plane_manager_def new_index_manager_def
          plane_model_def)
  have c: "fi_entries (new_flat_index 2) = []"
    by (simp add: new_flat_index_def)
  have d: "length (generate_embedding (embedding_service (create_index plane_manager ''doc'')) ''q'')
             = fi_d (new_flat_index 2)"
    by (simp add: generate_embedding_def manager_defs)
  from search_missing_or_empty[of plane_manager "''doc''" "''q''" 5] a
  have "search plane_manager ''doc'' ''q'' 5
          = (Inr [], log_to WARNING (No_index_found ''doc'') plane_manager)"
    by blast
  moreover from search_missing_or_empty[of "create_index plane_manager ''doc''" "''doc''" "''q''" 5] b c d
  have "search (create_index plane_manager ''doc'') ''doc'' ''q'' 5
          = (Inr [], create_index plane_manager ''doc'')"
    by simp
  ultimately show ?thesis using a b c by simp
qed


text \<open>
  Claim C8: the results of a search that returns are at most \<open>k\<close> and in descending
  order of score. Each result is built from one hit, in the order of the hits, and
  carries that hit's score; two results of equal score stand in ascending order of the
  ordinals of their hits.
\<close>

theorem search_results_ordered:
  assumes "indices m document_id = Some index"
      and "fst (search m document_id query k) = Inr results"
  shows "results = map (\<lambda>(score, idx).
                     result_of (meta_of (metadata_table m document_id) idx) score (Py_str document_id))
                   (search_hits m document_id query k)
         \<and> length results \<le> nat k
         \<and> sorted_wrt (\<lambda>a b. sr_score a \<ge> sr_score b) results
         \<and> sorted_wrt hit_before (search_hits m document_id query k)
         \<and> length (search_hits m document_id query k) = length results
         \<and> map sr_score results = map fst (search_hits m document_id query k)
         \<and> (\<forall>i j. i < j \<and> j < length results
                \<and> sr_score (results ! i) = sr_score (results ! j) \<longrightarrow>
                snd (search_hits m document_id query k ! i)
                  \<le> snd (search_hits m document_id query k ! j))"
proof -
  let ?q = "generate_embedding (embedding_service m) query"
  let ?hs = "search_hits m document_id query k"
  from assms have ok: "flat_search index ?q k = Inr (top_k (fi_entries index) ?q k)"
    by (auto simp: search_def flat_search_def Let_def split: if_splits)
  with assms have res: "results = build_results (metadata_table m document_id) document_id
                            (top_k (fi_entries index) ?q k)"
    by (simp add: search_def Let_def)
  have hs: "?hs = kept_hits (metadata_table m document_id) (top_k (fi_entries index) ?q k)"
    using assms(1) by (simp add: search_hits_def)
  have eq: "results = map (\<lambda>(score, idx).
                     result_of (meta_of (metadata_table m document_id) idx) score (Py_str document_id)) ?hs"
    unfolding res hs by (rule build_results_kept)
  have srt: "sorted_wrt hit_before ?hs"
    unfolding hs by (rule sorted_kept_top_k)
  have len: "length results \<le> nat k"
    unfolding eq hs using length_kept_top_k by simp
  have leq: "length ?hs = length results"
    using arg_cong[OF eq, of length] by simp
  have sc: "map sr_score results = map fst ?hs"
    using arg_cong[OF eq, of "map sr_score"] by (simp add: result_of_def case_prod_beta comp_def)
  have "sorted_wrt (\<lambda>a b. fst a \<ge> fst b) ?hs"
    by (rule sorted_wrt_mono_rel[OF _ srt]) (auto simp: hit_before_def)
  then have "sorted_wrt (\<lambda>a b. a \<ge> b) (map fst ?hs)"
    by (simp add: sorted_wrt_map)
  then have "sorted_wrt (\<lambda>a b. a \<ge> b) (map sr_score results)"
    by (simp add: sc)
  then have sres: "sorted_wrt (\<lambda>a b. sr_score a \<ge> sr_score b) results"
    by (simp add: sorted_wrt_map)
  have ties: "\<forall>i j. i < j \<and> j < length results
                \<and> sr_score (results ! i) = sr_score (results ! j) \<longrightarrow>
                snd (?hs ! i) \<le> snd (?hs ! j)"
  proof (intro allI impI)
    fix i j
    assume a: "i < j \<and> j < length results \<and> sr_score (results ! i) = sr_score (results ! j)"
    then have ij: "i < j" "j < length ?hs" "i < length ?hs" using leq by auto
    have "sr_score (results ! i) = fst (?hs ! i)" "sr_score (results ! j) = fst (?hs ! j)"
      using ij leq nth_map[of _ results sr_score] nth_map[of _ ?hs fst] sc by metis+
    with a have same: "fst (?hs ! i) = fst (?hs ! j)" by simp
    from srt ij have "hit_before (?hs ! i) (?hs ! j)"
      by (simp add: sorted_wrt_iff_nth_less)
    with same show "snd (?hs ! i) \<le> snd (?hs ! j)"
      by (simp add: hit_before_def)
  qed
  from eq len sres srt leq sc ties show ?thesis by blast
qed

text \<open>
  Claim C8 at three chunks of scores 1, 1 and 2: the chunk of score 2 comes first, then
  the two of score 1 in the order of their ordinals 0 and 1.
\<close>

theorem search_results_ordered_witness:
  "indices three_chunks ''doc''
     = Some \<lparr>fi_d = 2, fi_entries = [(0, [1, 0]), (1, [1, 0]), (2, [2, 0])]\<rparr>
   \<and> fst (search three_chunks ''doc'' ''q'' 3)
       = Inr [\<lparr>sr_chunk_id = Py_str ''c2'', sr_content = Py_str ''gamma'', sr_score = 2,
              sr_page_number = Py_int 2, sr_document_id = Py_str ''doc''\<rparr>,
            \<lparr>sr_chunk_id = Py_str ''c0'', sr_content = Py_str ''alpha'', sr_score = 1,
              sr_page_number = Py_int 1, sr_document_id = Py_str ''doc''\<rparr>,
            \<lparr>sr_chunk_id = Py_str ''c1'', sr_content = Py_str ''beta'', sr_score = 1,
              sr_page_number = Py_int 1, sr_document_id = Py_str ''doc''\<rparr>]
   \<and> search_hits three_chunks ''doc'' ''q'' 3 = [(2, 2), (1, 0), (1, 1)]
   \<and> length (search_hits three_chunks ''doc'' ''q'' 3) \<le> nat 3
   \<and> sorted_wrt hit_before (search_hits three_chunks ''doc'' ''q'' 3)"
proof -
  have top: "top_k [(0, [1, 0]), (1, [1, 0]), (2, [2, 0])] [1, 0] 3 = [(2, 2), (1, 0), (1, 1)]"
    by (simp add: top_k_def sort_hits_def inner_product_def hit_before_def)
  have hits: "search_hits three_chunks ''doc'' ''q'' 3 = [(2, 2), (1, 0), (1, 1)]"
    by (simp add: search_hits_def three_chunks_index three_chunks_table three_chunks_service
          generate_embedding_def plane_model_def top kept_hits_def meta_of_def)
  have "\<exists>results. fst (search three_chunks ''doc'' ''q'' 3) = Inr results"
    by (simp add: search_def three_chunks_index three_chunks_service flat_search_def
          generate_embedding_def plane_model_def Let_def)
  then obtain results where r: "fst (search three_chunks ''doc'' ''q'' 3) = Inr results" ..
  note ord = search_results_ordered[OF three_chunks_index r]
  from ord have "results = map (\<lambda>(score, idx).
                     result_of (meta_of (metadata_table three_chunks ''doc'') idx) score (Py_str ''doc''))
                   (search_hits three_chunks ''doc'' ''q'' 3)"
    by blast
  then have res: "results
       = [\<lparr>sr_chunk_id = Py_str ''c2'', sr_content = Py_str ''gamma'', sr_score = 2,
              sr_page_number = Py_int 2, sr_document_id = Py_str ''doc''\<rparr>,
            \<lparr>sr_chunk_id = Py_str ''c0'', sr_content = Py_str ''alpha'', sr_score = 1,
              sr_page_number = Py_int 1, sr_document_id = Py_str ''doc''\<rparr>,
            \<lparr>sr_chunk_id = Py_str ''c1'', sr_content = Py_str ''beta'', sr_score = 1,
              sr_page_number = Py_int 1, sr_document_id = Py_str ''doc''\<rparr>]"
    by (simp add: hits three_chunks_table meta_of_def result_of_def dict_get_def)
  from ord r res hits three_chunks_index show ?thesis by simp
qed

text \<open>
  Claim C10: in \<open>search\<close> and in \<open>global_search\<close> the results are those of the hits
  that have a metadata entry, in the order of the hits, and a hit whose ordinal is not
  in the table is among them in neither; so a search with \<open>k = 2\<close> in an index of two
  vectors can return one result.
\<close>

theorem hits_without_metadata_dropped:
  "(\<forall>index hits.
       indices m document_id = Some index
       \<and> flat_search index (generate_embedding (embedding_service m) query) k = Inr hits \<longrightarrow>
       fst (search m document_id query k)
         = Inr (map (\<lambda>(score, idx).
                  result_of (meta_of (metadata_table m document_id) idx) score (Py_str document_id))
                (kept_hits (metadata_table m document_id) hits))
       \<and> (\<forall>(score, idx) \<in> set hits.
            map_of (metadata_table m document_id) idx = None \<longrightarrow>
            (score, idx) \<notin> set (kept_hits (metadata_table m document_id) hits)))
   \<and> (\<forall>index hits.
       global_index g = Some index \<and> is_trained g
       \<and> ivf_search probe (index\<lparr>ivf_nprobe := min 10 (nlist g)\<rparr>)
           (generate_embedding (embedding_service g) query) k = Inr hits \<longrightarrow>
       fst (global_search probe g query k)
         = Inr (map (\<lambda>(score, idx).
                  result_of (meta_of (global_metadata g) idx) score
                    (dict_get (meta_of (global_metadata g) idx) ''document_id'' (Py_str [])))
                (kept_hits (global_metadata g) hits))
       \<and> (\<forall>(score, idx) \<in> set hits.
            map_of (global_metadata g) idx = None \<longrightarrow>
            (score, idx) \<notin> set (kept_hits (global_metadata g) hits)))
   \<and> (\<exists>index results.
         indices orphaned ''doc'' = Some index \<and> ntotal index \<ge> 2
         \<and> fst (search orphaned ''doc'' ''q'' 2) = Inr results \<and> length results < 2)"
proof (intro conjI allI impI)
  fix index hits
  assume a: "indices m document_id = Some index
       \<and> flat_search index (generate_embedding (embedding_service m) query) k = Inr hits"
  then show "fst (search m document_id query k)
         = Inr (map (\<lambda>(score, idx).
                  result_of (meta_of (metadata_table m document_id) idx) score (Py_str document_id))
                (kept_hits (metadata_table m document_id) hits))"
    by (simp add: search_def Let_def build_results_kept)
  show "\<forall>(score, idx) \<in> set hits.
            map_of (metadata_table m document_id) idx = None \<longrightarrow>
            (score, idx) \<notin> set (kept_hits (metadata_table m document_id) hits)"
    by (auto simp: kept_hits_no_meta)
next
  fix index hits
  assume a: "global_index g = Some index \<and> is_trained g
       \<and> ivf_search probe (index\<lparr>ivf_nprobe := min 10 (nlist g)\<rparr>)
           (generate_embedding (embedding_service g) query) k = Inr hits"
  then show "fst (global_search probe g query k)
         = Inr (map (\<lambda>(score, idx).
                  result_of (meta_of (global_metadata g) idx) score
                    (dict_get (meta_of (global_metadata g) idx) ''document_id'' (Py_str [])))
                (kept_hits (global_metadata g) hits))"
    by (simp add: global_search_def Let_def build_global_results_kept)
  show "\<forall>(score, idx) \<in> set hits.
            map_of (global_metadata g) idx = None \<longrightarrow>
            (score, idx) \<notin> set (kept_hits (global_metadata g) hits)"
    by (auto simp: kept_hits_no_meta)
next
  have "fst (search orphaned ''doc'' ''q'' 2)
          = Inr [result_of [(''chunk_id'', Py_str ''c0''), (''content'', Py_str ''alpha'')] 1
                   (Py_str ''doc'')]"
    by (simp add: search_def orphaned_index orphaned_table orphaned_service flat_search_def
          generate_embedding_def plane_model_def orphaned_top meta_of_def)
  then show "\<exists>index results.
         indices orphaned ''doc'' = Some index \<and> ntotal index \<ge> 2
         \<and> fst (search orphaned ''doc'' ''q'' 2) = Inr results \<and> length results < 2"
    by (simp add: orphaned_index ntotal_def py_len_def)
qed


text \<open>Claim C10 at the two managers whose last vector has no metadata.\<close>

theorem hits_without_metadata_dropped_witness:
  "indices orphaned ''doc'' = Some \<lparr>fi_d = 2, fi_entries = [(0, [1, 0]), (1, [0, 1])]\<rparr>
   \<and> flat_search \<lparr>fi_d = 2, fi_entries = [(0, [1, 0]), (1, [0, 1])]\<rparr>
       (generate_embedding (embedding_service orphaned) ''q'') 2 = Inr [(1, 0), (0, 1)]
   \<and> map_of (metadata_table orphaned ''doc'') 1 = None
   \<and> fst (search orphaned ''doc'' ''q'' 2)
       = Inr [\<lparr>sr_chunk_id = Py_str ''c0'', sr_content = Py_str ''alpha'', sr_score = 1,
              sr_page_number = Py_int 0, sr_document_id = Py_str ''doc''\<rparr>]
   \<and> is_trained global_orphaned
   \<and> map_of (global_metadata global_orphaned) 2 = None
   \<and> fst (global_search probe_all global_orphaned ''q'' 3)
       = Inr [\<lparr>sr_chunk_id = Py_str ''c0'', sr_content = Py_str ''alpha'', sr_score = 1,
              sr_page_number = Py_int 0, sr_document_id = Py_str ''doc''\<rparr>,
            \<lparr>sr_chunk_id = Py_str ''c1'', sr_content = Py_str [], sr_score = 0,
              sr_page_number = Py_int 0, sr_document_id = Py_str ''doc''\<rparr>]"
proof -
  let ?ix = "\<lparr>ivf_d = 2, ivf_nlist = 3, ivf_is_trained = True,
             ivf_training = [[1, 0], [0, 1], [1, 1]], ivf_nprobe = 1,
             ivf_entries = [(0, [1, 0]), (1, [0, 1]), (2, [1, 1 :: real])]\<rparr>"
  have fs: "flat_search \<lparr>fi_d = 2, fi_entries = [(0, [1, 0]), (1, [0, 1])]\<rparr>
       (generate_embedding (embedding_service orphaned) ''q'') 2 = Inr [(1, 0), (0, 1)]"
    by (simp add: flat_search_def orphaned_service generate_embedding_def plane_model_def orphaned_top)
  have top: "top_k [(0, [1, 0]), (1, [0, 1]), (2, [1, 1])] [1, 0] 3 = [(1, 0), (1, 2), (0, 1)]"
    by (simp add: top_k_def sort_hits_def inner_product_def hit_before_def)
  have gs: "ivf_search probe_all (?ix\<lparr>ivf_nprobe := min 10 (nlist global_orphaned)\<rparr>)
           (generate_embedding (embedding_service global_orphaned) ''q'') 3
          = Inr [(1, 0), (1, 2), (0, 1)]"
    by (simp add: ivf_search_def probe_all_def global_orphaned_state generate_embedding_def
          plane_model_def top)
  note inst = hits_without_metadata_dropped[of orphaned "''doc''" "''q''" 2 global_orphaned probe_all]
  note inst' = hits_without_metadata_dropped[of orphaned "''doc''" "''q''" 3 global_orphaned probe_all]
  from inst orphaned_index fs
  have s: "fst (search orphaned ''doc'' ''q'' 2)
     = Inr (map (\<lambda>(score, idx).
                  result_of (meta_of (metadata_table orphaned ''doc'') idx) score (Py_str ''doc''))
                (kept_hits (metadata_table orphaned ''doc'') [(1, 0), (0, 1)]))"
    by blast
  from inst' global_orphaned_state(1,3) gs
  have g: "fst (global_search probe_all global_orphaned ''q'' 3)
     = Inr (map (\<lambda>(score, idx).
                  result_of (meta_of (global_metadata global_orphaned) idx) score
                    (dict_get (meta_of (global_metadata global_orphaned) idx) ''document_id''
                       (Py_str [])))
                (kept_hits (global_metadata global_orphaned) [(1, 0), (1, 2), (0, 1)]))"
    by blast
  show ?thesis
    using s g orphaned_index fs global_orphaned_state(3)
    by (simp add: orphaned_table global_orphaned_state(2) kept_hits_def meta_of_def result_of_def
          dict_get_def)
qed


subsection \<open>save\_index and load\_index\<close>

text \<open>
  Claim C5: after \<open>save_index\<close> for a document that has an index, \<open>load_index\<close> in a new
  manager with the same directory and embedding service succeeds, and every search
  there returns what it returns in the saving manager.
\<close>

theorem persist_restore_search:
  assumes "indices m document_id = Some index"
  shows "fst (load_index (new_index_manager (index_path m) (embedding_service m)) document_id
                (snd (save_index m document_id fs))) = Inr True
       \<and> fst (search (snd (load_index (new_index_manager (index_path m) (embedding_service m))
                              document_id (snd (save_index m document_id fs))))
                 document_id query k)
         = fst (search m document_id query k)"
proof -
  let ?fresh = "new_index_manager (index_path m) (embedding_service m)"
  let ?fs = "snd (save_index m document_id fs)"
  have p1: "index_file ?fresh document_id = index_file m document_id"
    and p2: "meta_file ?fresh document_id = meta_file m document_id"
    by (simp_all add: index_file_def meta_file_def new_index_manager_def)
  have f1: "?fs (index_file m document_id) = Some (Index_file index)"
    using assms index_meta_file_distinct[of m document_id] by (simp add: save_index_def)
  have f2: "?fs (meta_file m document_id) = Some (Meta_file (metadata_table m document_id))"
    using assms by (simp add: save_index_def)
  have ld: "load_index ?fresh document_id ?fs =
              (Inr True, log_to INFO (Loaded_index document_id)
                 (?fresh\<lparr>indices := (indices ?fresh)(document_id \<mapsto> index),
                          metadata := (metadata ?fresh)(document_id \<mapsto> metadata_table m document_id)\<rparr>))"
    unfolding load_index_def p1 p2 f1 f2 by (simp add: Let_def)
  have "fst (search (snd (load_index ?fresh document_id ?fs)) document_id query k)
          = fst (search m document_id query k)"
    unfolding ld using assms
    by (intro fst_search_cong) (simp_all add: log_to_def new_index_manager_def metadata_table_def)
  then show ?thesis
    by (simp add: ld)
qed


text \<open>Claim C5 at three chunks and an empty disk.\<close>

theorem persist_restore_search_witness:
  "indices three_chunks ''doc''
     = Some \<lparr>fi_d = 2, fi_entries = [(0, [1, 0]), (1, [1, 0]), (2, [2, 0])]\<rparr>
   \<and> fst (load_index (new_index_manager (index_path three_chunks) (embedding_service three_chunks))
            ''doc'' (snd (save_index three_chunks ''doc'' Map.empty))) = Inr True
   \<and> fst (search (snd (load_index
                         (new_index_manager (index_path three_chunks) (embedding_service three_chunks))
                         ''doc'' (snd (save_index three_chunks ''doc'' Map.empty))))
            ''doc'' ''q'' 2)
       = Inr [\<lparr>sr_chunk_id = Py_str ''c2'', sr_content = Py_str ''gamma'', sr_score = 2,
              sr_page_number = Py_int 2, sr_document_id = Py_str ''doc''\<rparr>,
            \<lparr>sr_chunk_id = Py_str ''c0'', sr_content = Py_str ''alpha'', sr_score = 1,
              sr_page_number = Py_int 1, sr_document_id = Py_str ''doc''\<rparr>]"
  using persist_restore_search[OF three_chunks_index, of Map.empty "''q''" 2]
  by (simp add: three_chunks_index three_chunks_search)


section \<open>Properties of the global index\<close>

text \<open>
  Claim C6, as stated: a search before training returns the empty list and leaves the
  manager, its log included, as it was; a search in a trained index without vectors
  returns the same empty list. Nothing signals \<open>NotTrained\<close>.
\<close>

theorem untrained_global_search_gives_no_signal:
  "\<not> is_trained plane_global
   \<and> global_search probe_all plane_global ''q'' 10 = (Inr [], plane_global)
   \<and> is_trained trained_global
   \<and> fst (global_search probe_all trained_global ''q'' 10) = Inr []"
  by (simp add: trained_global_def global_search_def create_global_index_def ivf_train_def
        ivf_search_def new_ivf_index_def probe_all_def top_k_def sort_hits_def
        generate_embedding_def build_global_results_kept kept_hits_pad manager_defs)


text \<open>
  Claim C6, amended: a search before the global index is created or trained returns
  the empty list, raises nothing and changes nothing, the log included.
\<close>

theorem global_search_untrained:
  "global_index g = None \<or> \<not> is_trained g \<Longrightarrow> global_search probe g query k = (Inr [], g)"
  by (auto simp: global_search_def split: option.splits)


text \<open>Claim C6, amended, at a new global manager.\<close>

theorem global_search_untrained_witness:
  "(global_index plane_global = None \<or> \<not> is_trained plane_global)
   \<and> global_search probe_all plane_global ''q'' 10 = (Inr [], plane_global)"
  using global_search_untrained[of plane_global probe_all "''q''" 10]
  by (simp add: plane_global_def new_global_index_manager_def)


text \<open>
  Claim C7: an addition of fewer than \<open>nlist\<close> vectors to an untrained global index
  does not fail and logs one warning; the global metadata, the vectors of the global
  index and the trained flag are as before, and so is the index itself unless there was
  none, in which case an empty untrained one has been created.
\<close>

theorem add_below_threshold_deferred:
  assumes "\<not> is_trained g" and "py_len embeddings < nlist g"
  shows "fst (add_to_global_index g document_id chunk_ids embeddings chunk_metadata) = Inr ()
       \<and> global_metadata (snd (add_to_global_index g document_id chunk_ids embeddings chunk_metadata))
           = global_metadata g
       \<and> global_vectors (snd (add_to_global_index g document_id chunk_ids embeddings chunk_metadata))
           = global_vectors g
       \<and> is_trained (snd (add_to_global_index g document_id chunk_ids embeddings chunk_metadata))
           = is_trained g
       \<and> global_index (snd (add_to_global_index g document_id chunk_ids embeddings chunk_metadata))
           = (case global_index g of
                None \<Rightarrow> Some (new_ivf_index (get_dimension (embedding_service g)) (nlist g))
              | Some index \<Rightarrow> Some index)
       \<and> logged (snd (add_to_global_index g document_id chunk_ids embeddings chunk_metadata))
           = logged g @ [(WARNING, Global_index_not_trained)]"
  using assms
  by (cases "global_index g")
     (simp_all add: add_to_global_index_def create_global_index_def train_on_batch_def
        add_trained_def log_to_def global_vectors_def new_ivf_index_def Let_def)

text \<open>Claim C7 at two vectors and \<open>nlist = 3\<close>.\<close>

theorem add_below_threshold_deferred_witness:
  "\<not> is_trained plane_global \<and> py_len [[1, 0], [0, 1 :: real]] < nlist plane_global
   \<and> fst (add_to_global_index plane_global ''doc'' [''c0'', ''c1''] [[1, 0], [0, 1]] [[], []]) = Inr ()
   \<and> global_metadata (snd (add_to_global_index plane_global ''doc'' [''c0'', ''c1'']
                              [[1, 0], [0, 1]] [[], []])) = []
   \<and> global_vectors (snd (add_to_global_index plane_global ''doc'' [''c0'', ''c1'']
                              [[1, 0], [0, 1]] [[], []])) = []
   \<and> \<not> is_trained (snd (add_to_global_index plane_global ''doc'' [''c0'', ''c1'']
                              [[1, 0], [0, 1]] [[], []]))
   \<and> logged (snd (add_to_global_index plane_global ''doc'' [''c0'', ''c1'']
                       [[1, 0], [0, 1]] [[], []])) = [(WARNING, Global_index_not_trained)]"
proof -
  have a: "\<not> is_trained plane_global" and b: "py_len [[1, 0], [0, 1 :: real]] < nlist plane_global"
    and c: "global_metadata plane_global = []" and d: "global_vectors plane_global = []"
    and e: "logged plane_global = []"
    by (simp_all add: plane_global_def new_global_index_manager_def py_len_def global_vectors_def)
  from add_below_threshold_deferred[OF a b, of "''doc''" "[''c0'', ''c1'']" "[[], []]"] a b c d e
  show ?thesis by simp
qed

end
